theory Spec2Isabelle
  imports Main
begin

section \<open>Data model\<close>

text \<open>
  The user document of \<^verbatim>\<open>types/IUser.ts\<close> and \<^verbatim>\<open>models/UserModel.ts\<close>.
  Optional fields are options (\<open>None\<close> is the source's \<^verbatim>\<open>undefined\<close>), dates are
  milliseconds since the epoch, and a string is the list of its characters, one for
  each unit that \<^verbatim>\<open>length\<close> counts in the source. The field \<^verbatim>\<open>_id\<close> is called
  \<open>user_id\<close>. The timestamps \<^verbatim>\<open>createdAt\<close> and \<^verbatim>\<open>updatedAt\<close> are written by the store
  itself on every save and are not part of the modelled record.
\<close>

datatype Role = RUser | RAdmin

record IUser =
  user_id :: string
  username :: string
  email :: string
  password :: string
  role :: Role
  isVerified :: bool
  isActive :: bool
  refreshToken :: "string option"
  emailVerificationToken :: "string option"
  emailVerificationExpires :: "int option"
  passwordResetToken :: "string option"
  passwordResetExpires :: "int option"

text \<open>\<^verbatim>\<open>class ApiError extends Error\<close> of \<^verbatim>\<open>middleware/errorHandler.ts\<close>: a message and a
  status code. Every \<^verbatim>\<open>throw new ApiError(m, c)\<close> is the value \<open>Inl (ApiError m c)\<close>.\<close>

datatype ApiError = ApiError (message: string) (statusCode: nat)

text \<open>The payload \<^verbatim>\<open>jwt.verify\<close> returns (\<^verbatim>\<open>interface DecodedToken\<close> of
  \<^verbatim>\<open>middleware/authProtect.ts\<close>).\<close>

text \<open>What a function can throw: an \<^verbatim>\<open>ApiError\<close>, an error of \<^verbatim>\<open>jwt.verify\<close>, or the
  \<^verbatim>\<open>ValidationError\<close> with which \<^verbatim>\<open>save\<close> rejects a document that breaks the schema.\<close>

datatype thrown = JwtError | ValidationError | Thrown ApiError

record DecodedToken =
  userId :: string
  iat :: int
  exp :: int

subsection \<open>External collaborators\<close>

text \<open>
  The libraries the services call are parameters of the model: \<^verbatim>\<open>crypto\<close>'s SHA-256
  digest, \<^verbatim>\<open>bcrypt\<close> (the salt that \<^verbatim>\<open>bcrypt.hash\<close> draws is an argument),
  \<^verbatim>\<open>jsonwebtoken\<close> (signing and verifying read the clock, so the time is an argument;
  \<open>jwt_verify\<close> is \<open>None\<close> where \<^verbatim>\<open>jwt.verify\<close> throws), the two secrets of
  \<^verbatim>\<open>process.env\<close>, mongoose's \<^verbatim>\<open>Types.ObjectId.isValid\<close>, and JavaScript's
  \<^verbatim>\<open>String.prototype.toLowerCase\<close> and \<^verbatim>\<open>String.prototype.trim\<close>.
\<close>

record env =
  sha256 :: "string \<Rightarrow> string"
  bcrypt_hash :: "string \<Rightarrow> string \<Rightarrow> string"
  bcrypt_compare :: "string \<Rightarrow> string \<Rightarrow> bool"
  jwt_sign :: "string \<Rightarrow> string \<Rightarrow> string \<Rightarrow> int \<Rightarrow> string"
  jwt_verify :: "string \<Rightarrow> string \<Rightarrow> int \<Rightarrow> DecodedToken option"
  ACCESS_TOKEN_SECRET :: string
  REFRESH_TOKEN_SECRET :: string
  isValidObjectId :: "string \<Rightarrow> bool"
  toLowerCase :: "string \<Rightarrow> string"
  trim :: "string \<Rightarrow> string"

text \<open>\<^verbatim>\<open>utils/token.ts\<close>: \<^verbatim>\<open>jwt.sign({ userId }, SECRET, { expiresIn })\<close>.\<close>

definition signAccessToken :: "env \<Rightarrow> int \<Rightarrow> string \<Rightarrow> string" where
  "signAccessToken E now uid = jwt_sign E uid (ACCESS_TOKEN_SECRET E) ''15m'' now"

definition signRefreshToken :: "env \<Rightarrow> int \<Rightarrow> string \<Rightarrow> string" where
  "signRefreshToken E now uid = jwt_sign E uid (REFRESH_TOKEN_SECRET E) ''1d'' now"

subsection \<open>The credential store\<close>

text \<open>
  The collection is the list of its documents in natural order. \<^verbatim>\<open>User.findOne(q)\<close> is
  the first document that satisfies the query, \<^verbatim>\<open>User.findById(id)\<close> the first with that
  \<^verbatim>\<open>_id\<close>, and \<^verbatim>\<open>user.save()\<close> writes the loaded document back over the stored document
  with the same \<^verbatim>\<open>_id\<close>. Every operation saves a document it has just loaded, so that
  document is in the store; operations run one after the other.
\<close>

type_synonym store = "IUser list"

definition findOne :: "(IUser \<Rightarrow> bool) \<Rightarrow> store \<Rightarrow> IUser option" where
  "findOne q db = find q db"

definition findById :: "string \<Rightarrow> store \<Rightarrow> IUser option" where
  "findById i db = findOne (\<lambda>u. user_id u = i) db"

fun save :: "IUser \<Rightarrow> store \<Rightarrow> store" where
  "save u [] = []"
| "save u (v # db) = (if user_id v = user_id u then u # db else v # save u db)"

text \<open>The store's own guarantee: \<^verbatim>\<open>_id\<close> is a unique key.\<close>

definition unique_ids :: "store \<Rightarrow> bool" where
  "unique_ids db = distinct (map user_id db)"

text \<open>
  \<^verbatim>\<open>models/UserModel.ts\<close> declares \<^verbatim>\<open>email\<close> with \<^verbatim>\<open>lowercase: true, trim: true\<close> and
  \<^verbatim>\<open>username\<close> with \<^verbatim>\<open>trim: true\<close>. Mongoose runs these setters, the last declared first,
  on a value assigned to the path of a document and also on the value a query filter
  gives for the path: \<^verbatim>\<open>findOne({ email: x })\<close> looks for the trimmed, lowercased \<^verbatim>\<open>x\<close>.
\<close>

definition cast_email :: "env \<Rightarrow> string \<Rightarrow> string" where
  "cast_email E s = toLowerCase E (trim E s)"

definition cast_username :: "env \<Rightarrow> string \<Rightarrow> string" where
  "cast_username E s = trim E s"

text \<open>
  \<^verbatim>\<open>save\<close> validates the document against the schema first. The stored documents were
  validated when they were written, so a save can be rejected only for a path the
  operation has assigned. The one validated path that an operation modelled here
  assigns from its input is \<^verbatim>\<open>username\<close> (\<^verbatim>\<open>required\<close>, \<^verbatim>\<open>minlength: 2\<close>, \<^verbatim>\<open>maxlength: 15\<close>,
  checked on the trimmed value); an assigned \<^verbatim>\<open>password\<close> is a bcrypt hash, whose 60
  characters pass the schema's \<^verbatim>\<open>minlength: 8\<close>.
\<close>

definition valid_username :: "string \<Rightarrow> bool" where
  "valid_username n = (2 \<le> length n \<and> length n \<le> 15)"

text \<open>JavaScript truthiness of a value that is a string or \<^verbatim>\<open>undefined\<close>: the empty string
  and \<^verbatim>\<open>undefined\<close> are falsy.\<close>

fun truthy :: "string option \<Rightarrow> bool" where
  "truthy None = False"
| "truthy (Some s) = (s \<noteq> [])"

section \<open>UserService\<close>

subsection \<open>refresh\<close>

record refresh_result =
  accessToken :: string

definition refresh :: "env \<Rightarrow> int \<Rightarrow> string option \<Rightarrow> store \<Rightarrow> (ApiError + refresh_result) \<times> store" where
  "refresh E now cookieRefreshToken db =
     (case cookieRefreshToken of
        None \<Rightarrow> (Inl (ApiError ''Unauthorized'' 401), db)
      | Some tok \<Rightarrow>
          if tok = [] then (Inl (ApiError ''Unauthorized'' 401), db)
          else
            (case jwt_verify E tok (REFRESH_TOKEN_SECRET E) now of
               None \<Rightarrow> (Inl (ApiError ''Forbidden: Expired or Invalid Refresh Token'' 403), db)
             | Some decoded \<Rightarrow>
                 (case findById (userId decoded) db of
                    None \<Rightarrow> (Inl (ApiError ''Unauthorized'' 401), db)
                  | Some user \<Rightarrow>
                      if \<not> isActive user then (Inl (ApiError ''Unauthorized'' 401), db)
                      else if refreshToken user \<noteq> Some tok
                        then (Inl (ApiError ''Forbidden: Invalid Token'' 403), db)
                      else (Inr \<lparr>accessToken = signAccessToken E now (user_id user)\<rparr>, db))))"

subsection \<open>login\<close>

record safeUser =
  safe_id :: string
  safe_username :: string
  safe_role :: Role

record login_result =
  user :: safeUser
  accessTkn :: string
  refreshTkn :: string

text \<open>The filter \<^verbatim>\<open>{ $or: [{ email: identifier }, { username: identifier }] }\<close>, cast by the
  schema.\<close>

definition login_query :: "env \<Rightarrow> string \<Rightarrow> IUser \<Rightarrow> bool" where
  "login_query E identifier =
     (\<lambda>u. email u = cast_email E identifier \<or> username u = cast_username E identifier)"

definition login :: "env \<Rightarrow> int \<Rightarrow> string \<Rightarrow> string \<Rightarrow> store \<Rightarrow> (ApiError + login_result) \<times> store" where
  "login E now identifier pwd db =
     (case findOne (login_query E identifier) db of
        None \<Rightarrow> (Inl (ApiError ''Invalid credentials'' 401), db)
      | Some u \<Rightarrow>
          if \<not> bcrypt_compare E pwd (password u)
            then (Inl (ApiError ''Invalid credentials'' 401), db)
          else if \<not> isVerified u then (Inl (ApiError ''Please verify your email'' 403), db)
          else if \<not> isActive u then (Inl (ApiError ''Account is disabled'' 403), db)
          else
            (let accessTkn = signAccessToken E now (user_id u);
                 refreshTkn = signRefreshToken E now (user_id u);
                 u' = u\<lparr>refreshToken := Some refreshTkn\<rparr>
             in (Inr \<lparr>user = \<lparr>safe_id = user_id u', safe_username = username u',
                               safe_role = role u'\<rparr>,
                      accessTkn = accessTkn, refreshTkn = refreshTkn\<rparr>,
                 save u' db)))"

subsection \<open>verifyEmail and resetPassword\<close>

text \<open>The query \<^verbatim>\<open>{ $gt: new Date() }\<close> on an optional date: the field exists and is later
  than now.\<close>

fun gt_now :: "int \<Rightarrow> int option \<Rightarrow> bool" where
  "gt_now now None = False"
| "gt_now now (Some e) = (now < e)"

definition verification_query :: "string \<Rightarrow> int \<Rightarrow> IUser \<Rightarrow> bool" where
  "verification_query hashedToken now u =
     (emailVerificationToken u = Some hashedToken \<and> gt_now now (emailVerificationExpires u))"

definition verifyEmail :: "env \<Rightarrow> int \<Rightarrow> string \<Rightarrow> store \<Rightarrow> (ApiError + string) \<times> store" where
  "verifyEmail E now token db =
     (let hashedToken = sha256 E token in
      case findOne (verification_query hashedToken now) db of
        None \<Rightarrow> (Inl (ApiError ''Invalid or expired token'' 400), db)
      | Some u \<Rightarrow>
          (Inr ''Email verified successfully'',
           save (u\<lparr>isVerified := True, emailVerificationToken := None,
                    emailVerificationExpires := None\<rparr>) db))"

definition reset_query :: "string \<Rightarrow> int \<Rightarrow> IUser \<Rightarrow> bool" where
  "reset_query hashedToken now u =
     (passwordResetToken u = Some hashedToken \<and> gt_now now (passwordResetExpires u))"

definition resetPassword :: "env \<Rightarrow> int \<Rightarrow> string \<Rightarrow> string \<Rightarrow> string \<Rightarrow> store \<Rightarrow> (ApiError + unit) \<times> store" where
  "resetPassword E now salt token newPassword db =
     (let hashedToken = sha256 E token in
      case findOne (reset_query hashedToken now) db of
        None \<Rightarrow> (Inl (ApiError ''Invalid or expired token'' 400), db)
      | Some u \<Rightarrow>
          (Inr (),
           save (u\<lparr>password := bcrypt_hash E newPassword salt, passwordResetToken := None,
                    passwordResetExpires := None\<rparr>) db))"

subsection \<open>logout\<close>


subsection \<open>resendVerificationEmail and forgotPassword\<close>

text \<open>
  \<^verbatim>\<open>EmailService\<close> is a sink: the model returns the mails an operation hands to it.
  The raw token is \<^verbatim>\<open>crypto.randomBytes(32).toString("hex")\<close>, an argument of the model.
  The filter \<^verbatim>\<open>{ email }\<close> is cast by the schema; the mail goes to the address as it was
  given.
\<close>

datatype mail = VerificationEmail string string | PasswordResetEmail string string

definition resendVerificationEmail :: "env \<Rightarrow> int \<Rightarrow> string \<Rightarrow> string \<Rightarrow> store \<Rightarrow> (ApiError + unit) \<times> store \<times> mail list" where
  "resendVerificationEmail E now rawToken mail_to db =
     (case findOne (\<lambda>u. email u = cast_email E mail_to) db of
        None \<Rightarrow> (Inr (), db, [])
      | Some u \<Rightarrow>
          if isVerified u then (Inr (), db, [])
          else
            (let verificationToken = sha256 E rawToken in
             (Inr (),
              save (u\<lparr>emailVerificationToken := Some verificationToken,
                       emailVerificationExpires := Some (now + 24 * 60 * 60 * 1000)\<rparr>) db,
              [VerificationEmail mail_to rawToken])))"

definition forgotPassword :: "env \<Rightarrow> int \<Rightarrow> string \<Rightarrow> string \<Rightarrow> store \<Rightarrow> (ApiError + unit) \<times> store \<times> mail list" where
  "forgotPassword E now rawToken mail_to db =
     (case findOne (\<lambda>u. email u = cast_email E mail_to) db of
        None \<Rightarrow> (Inr (), db, [])
      | Some u \<Rightarrow>
          (let resetToken = sha256 E rawToken in
           (Inr (),
            save (u\<lparr>passwordResetToken := Some resetToken,
                     passwordResetExpires := Some (now + 60 * 60 * 1000)\<rparr>) db,
            [PasswordResetEmail mail_to rawToken])))"

subsection \<open>updateProfile\<close>

text \<open>The request body, \<^verbatim>\<open>Partial<IUser>\<close>: a field is \<open>Some\<close> exactly when its key is in
  the object (\<^verbatim>\<open>"email" in input\<close>).\<close>

record PartialIUser =
  in_username :: "string option"
  in_email :: "string option"
  in_password :: "string option"
  in_role :: "Role option"
  in_isVerified :: "bool option"
  in_isActive :: "bool option"
  in_refreshToken :: "string option"

text \<open>
  \<^verbatim>\<open>User.findById(id)\<close> loads a document without the paths the schema declares
  \<^verbatim>\<open>select: false\<close> (password, refreshToken, the two token hashes and their expiries), and
  \<^verbatim>\<open>user.toObject()\<close> returns what the document holds: the loaded paths, and the password
  when the operation has assigned it (the timestamps and the version key, which the
  store maintains, are left out as in the user record).
\<close>

record userObject =
  obj_id :: string
  obj_username :: string
  obj_email :: string
  obj_role :: Role
  obj_isVerified :: bool
  obj_isActive :: bool
  obj_password :: "string option"

definition toObject :: "IUser \<Rightarrow> string option \<Rightarrow> userObject" where
  "toObject u assigned_password =
     \<lparr>obj_id = user_id u, obj_username = username u, obj_email = email u, obj_role = role u,
      obj_isVerified = isVerified u, obj_isActive = isActive u,
      obj_password = assigned_password\<rparr>"

definition updateProfile :: "env \<Rightarrow> string \<Rightarrow> string \<Rightarrow> PartialIUser \<Rightarrow> store \<Rightarrow> (thrown + userObject) \<times> store" where
  "updateProfile E salt i input db =
     (if \<not> isValidObjectId E i then (Inl (Thrown (ApiError ''Invalid user ID'' 400)), db)
      else
        (case findById i db of
           None \<Rightarrow> (Inl (Thrown (ApiError ''User not found'' 404)), db)
         | Some u \<Rightarrow>
             if in_email input \<noteq> None
               then (Inl (Thrown (ApiError ''Email cannot be changed'' 400)), db)
             else if in_role input \<noteq> None \<or> in_isActive input \<noteq> None
               then (Inl (Thrown (ApiError ''Forbidden'' 403)), db)
             else
               (case (case in_username input of
                        None \<Rightarrow> Inr u
                      | Some n \<Rightarrow>
                          if n = [] then Inr u
                          else
                            (case findOne (\<lambda>v. username v = cast_username E n \<and> user_id v \<noteq> i) db of
                               Some taken \<Rightarrow> Inl (Thrown (ApiError ''Username already taken'' 409))
                             | None \<Rightarrow> Inr (u\<lparr>username := cast_username E n\<rparr>))) of
                  Inl e \<Rightarrow> (Inl e, db)
                | Inr u1 \<Rightarrow>
                    (let hashed = (case in_password input of
                                     None \<Rightarrow> None
                                   | Some p \<Rightarrow>
                                       if p = [] then None else Some (bcrypt_hash E p salt));
                         u2 = (case hashed of None \<Rightarrow> u1 | Some h \<Rightarrow> u1\<lparr>password := h\<rparr>)
                     in if truthy (in_username input) \<and> \<not> valid_username (username u2)
                        then (Inl ValidationError, db)
                        else (Inr (toObject u2 hashed), save u2 db)))))"

section \<open>The authorization middleware\<close>

text \<open>
  \<^verbatim>\<open>middleware/authProtect.ts\<close>. A header value is a string or a list of strings; the
  request carries the two header spellings the code reads and the two fields it sets.
\<close>

datatype header_value = HString string | HArray "string list"

record AuthRequest =
  authorization :: "header_value option"
  Authorization :: "header_value option"
  req_userId :: "string option"
  req_userRole :: "Role option"

fun hv_truthy :: "header_value option \<Rightarrow> bool" where
  "hv_truthy None = False"
| "hv_truthy (Some (HString s)) = (s \<noteq> [])"
| "hv_truthy (Some (HArray xs)) = True"

text \<open>\<^verbatim>\<open>s.split(" ")\<close> and the element \<^verbatim>\<open>[1]\<close> of its result (\<open>None\<close> is \<^verbatim>\<open>undefined\<close>).\<close>

fun split_space :: "string \<Rightarrow> string list" where
  "split_space [] = [[]]"
| "split_space (c # cs) =
     (if c = CHR '' '' then [] # split_space cs
      else (case split_space cs of [] \<Rightarrow> [[c]] | w # ws \<Rightarrow> (c # w) # ws))"

definition second :: "string list \<Rightarrow> string option" where
  "second parts = (if 1 < length parts then Some (parts ! 1) else None)"

definition startsWith :: "string \<Rightarrow> string \<Rightarrow> bool" where
  "startsWith s p = (take (length p) s = p)"

definition authProtect_try :: "env \<Rightarrow> int \<Rightarrow> string option \<Rightarrow> AuthRequest \<Rightarrow> store \<Rightarrow> thrown + AuthRequest" where
  "authProtect_try E now token req db =
     (case token of
        None \<Rightarrow> Inl JwtError
      | Some t \<Rightarrow>
          (case jwt_verify E t (ACCESS_TOKEN_SECRET E) now of
             None \<Rightarrow> Inl JwtError
           | Some decoded \<Rightarrow>
               (case findById (userId decoded) db of
                  None \<Rightarrow> Inl (Thrown (ApiError ''User no longer exists'' 404))
                | Some u \<Rightarrow>
                    if \<not> isActive u then Inl (Thrown (ApiError ''Account is disabled'' 403))
                    else Inr (req\<lparr>req_userId := Some (userId decoded),
                                   req_userRole := Some (role u)\<rparr>))))"

text \<open>\<^verbatim>\<open>req.headers.authorization || req.headers.Authorization\<close>\<close>

definition authHeader :: "AuthRequest \<Rightarrow> header_value option" where
  "authHeader req =
     (if hv_truthy (authorization req) then authorization req else Authorization req)"

definition authProtect :: "env \<Rightarrow> int \<Rightarrow> AuthRequest \<Rightarrow> store \<Rightarrow> ApiError + AuthRequest" where
  "authProtect E now req db =
     (case authHeader req of
        Some (HString h) \<Rightarrow>
          if \<not> startsWith h ''Bearer ''
            then Inl (ApiError ''Unauthorized: No token provided'' 401)
          else
            (case authProtect_try E now (second (split_space h)) req db of
               Inl e \<Rightarrow> Inl (ApiError ''Forbidden: Invalid or expired token'' 403)
             | Inr req' \<Rightarrow> Inr req')
      | _ \<Rightarrow> Inl (ApiError ''Unauthorized: No token provided'' 401))"

section \<open>A concrete environment and store\<close>

text \<open>
  Stand-ins for the libraries, used to run the model on concrete inputs: a token is the
  secret, a colon and the user id; a digest prefixes its input; lowercasing maps the
  letters A to Z; trimming removes blanks, tabs and line ends at both ends.
\<close>

definition lower_char :: "char \<Rightarrow> char" where
  "lower_char c =
     (case map_of (zip ''ABCDEFGHIJKLMNOPQRSTUVWXYZ'' ''abcdefghijklmnopqrstuvwxyz'') c of
        None \<Rightarrow> c
      | Some l \<Rightarrow> l)"

definition blank :: "char \<Rightarrow> bool" where
  "blank c = (c = CHR '' '' \<or> c = CHR 0x09 \<or> c = CHR 0x0A \<or> c = CHR 0x0D)"

definition trim_blanks :: "string \<Rightarrow> string" where
  "trim_blanks s = rev (dropWhile blank (rev (dropWhile blank s)))"

definition demo_env :: env where
  "demo_env =
     \<lparr>sha256 = (\<lambda>s. ''#'' @ s),
      bcrypt_hash = (\<lambda>p salt. ''$'' @ p),
      bcrypt_compare = (\<lambda>p h. h = ''$'' @ p),
      jwt_sign = (\<lambda>uid secret expiresIn now. secret @ '':'' @ uid),
      jwt_verify = (\<lambda>t secret now.
         if take (length secret + 1) t = secret @ '':''
         then Some \<lparr>userId = drop (length secret + 1) t, iat = 0, exp = 1\<rparr> else None),
      ACCESS_TOKEN_SECRET = ''A'',
      REFRESH_TOKEN_SECRET = ''R'',
      isValidObjectId = (\<lambda>i. i \<noteq> []),
      toLowerCase = map lower_char,
      trim = trim_blanks\<rparr>"

definition alice :: IUser where
  "alice =
     \<lparr>user_id = ''u1'', username = ''alice'', email = ''alice@x.com'', password = ''$Pw1!aaaa'',
      role = RUser, isVerified = True, isActive = True, refreshToken = Some ''R:u1'',
      emailVerificationToken = None, emailVerificationExpires = None,
      passwordResetToken = None, passwordResetExpires = None\<rparr>"

text \<open>A registered user who has not verified yet.\<close>

definition pending :: IUser where
  "pending = alice\<lparr>isVerified := False, refreshToken := None,
     emailVerificationToken := Some ''#t0'', emailVerificationExpires := Some 100\<rparr>"

text \<open>A request whose only header is \<^verbatim>\<open>authorization: h\<close>.\<close>

definition bearer_req :: "string \<Rightarrow> AuthRequest" where
  "bearer_req h = \<lparr>authorization = Some (HString h), Authorization = None,
     req_userId = None, req_userRole = None\<rparr>"

text \<open>A user who has asked for a password reset, and a second user.\<close>

definition resetting :: IUser where
  "resetting = alice\<lparr>passwordResetToken := Some ''#r0'', passwordResetExpires := Some 100\<rparr>"

definition bob :: IUser where
  "bob = alice\<lparr>user_id := ''u2'', username := ''bob'', email := ''bob@x.com'',
     refreshToken := None\<rparr>"

text \<open>The empty request body \<^verbatim>\<open>{}\<close>.\<close>

definition no_keys :: PartialIUser where
  "no_keys = \<lparr>in_username = None, in_email = None, in_password = None, in_role = None,
     in_isVerified = None, in_isActive = None, in_refreshToken = None\<rparr>"

section \<open>Properties\<close>

subsection \<open>Facts about the store\<close>

lemma findOne_None_iff: "findOne q db = None \<longleftrightarrow> (\<forall>v\<in>set db. \<not> q v)"
  by (auto simp: findOne_def find_None_iff)

lemma findOne_SomeD: "findOne q db = Some u \<Longrightarrow> u \<in> set db \<and> q u"
  by (auto simp: findOne_def find_Some_iff)

lemma findById_SomeD: "findById i db = Some u \<Longrightarrow> u \<in> set db \<and> user_id u = i"
  by (auto simp: findById_def dest: findOne_SomeD)

lemma findById_save_same:
  "user_id u' = i \<Longrightarrow>
   findById i (save u' db) = (case findById i db of None \<Rightarrow> None | Some v \<Rightarrow> Some u')"
  by (induction db) (auto simp: findById_def findOne_def)

lemma findById_save_other:
  "user_id u' \<noteq> i \<Longrightarrow> findById i (save u' db) = findById i db"
  by (induction db) (auto simp: findById_def findOne_def)

lemma findById_member: "u \<in> set db \<Longrightarrow> findById (user_id u) db \<noteq> None"
  by (auto simp: findById_def findOne_None_iff)

lemma set_save_unique:
  "unique_ids db \<Longrightarrow> u \<in> set db \<Longrightarrow> user_id u' = user_id u \<Longrightarrow>
   set (save u' db) = insert u' (set db - {u})"
  by (induction db) (auto simp: unique_ids_def)

lemma map_id_save: "map user_id (save u db) = map user_id db"
  by (induction db) auto

subsection \<open>The stand-in token codec\<close>

lemma demo_verify_R [simp]:
  "jwt_verify demo_env (CHR ''R'' # CHR '':'' # i) (REFRESH_TOKEN_SECRET demo_env) now =
     Some \<lparr>userId = i, iat = 0, exp = 1\<rparr>"
  by (simp add: demo_env_def)

lemma demo_verify_A [simp]:
  "jwt_verify demo_env (CHR ''A'' # CHR '':'' # i) (ACCESS_TOKEN_SECRET demo_env) now =
     Some \<lparr>userId = i, iat = 0, exp = 1\<rparr>"
  by (simp add: demo_env_def)

subsection \<open>refresh\<close>



text \<open>
  C2, as stated, fails on its second half. A user whose stored refreshToken is \<open>R:old\<close>
  is presented the valid token \<open>R:u1\<close> of the same user: the request is rejected with
  403 and the stored refreshToken is still \<open>R:old\<close>, not cleared.
\<close>

theorem refresh_reuse_counterexample:
  "refresh demo_env 0 (Some ''R:u1'') [alice\<lparr>refreshToken := Some ''R:old''\<rparr>] =
     (Inl (ApiError ''Forbidden: Invalid Token'' 403), [alice\<lparr>refreshToken := Some ''R:old''\<rparr>]) \<and>
   map refreshToken
     (snd (refresh demo_env 0 (Some ''R:u1'') [alice\<lparr>refreshToken := Some ''R:old''\<rparr>])) =
     [Some ''R:old'']"
  by (simp add: refresh_def findById_def findOne_def alice_def)

text \<open>
  C2, amended. \<open>refresh\<close> never changes the store, whatever its outcome: not on success,
  and not when reuse is detected, where it only rejects the request with 403 and the
  user's stored refreshToken stays as it was.
\<close>

theorem refresh_never_mutates:
  "snd (refresh E now cookie db) = db \<and>
   (tok \<noteq> [] \<and> jwt_verify E tok (REFRESH_TOKEN_SECRET E) now = Some d \<and>
    findById (userId d) db = Some u \<and> isActive u \<and> refreshToken u \<noteq> Some tok \<longrightarrow>
      refresh E now (Some tok) db = (Inl (ApiError ''Forbidden: Invalid Token'' 403), db) \<and>
      findById (userId d) (snd (refresh E now (Some tok) db)) = Some u)"
  by (auto simp: refresh_def split: option.splits)

theorem refresh_never_mutates_witness:
  "snd (refresh demo_env 0 (Some ''R:u1'') [alice\<lparr>refreshToken := Some ''R:old''\<rparr>]) =
     [alice\<lparr>refreshToken := Some ''R:old''\<rparr>] \<and>
   refresh demo_env 0 (Some ''R:u1'') [alice\<lparr>refreshToken := Some ''R:old''\<rparr>] =
     (Inl (ApiError ''Forbidden: Invalid Token'' 403), [alice\<lparr>refreshToken := Some ''R:old''\<rparr>]) \<and>
   findById ''u1''
     (snd (refresh demo_env 0 (Some ''R:u1'') [alice\<lparr>refreshToken := Some ''R:old''\<rparr>])) =
     Some (alice\<lparr>refreshToken := Some ''R:old''\<rparr>)"
proof -
  let ?u = "alice\<lparr>refreshToken := Some ''R:old''\<rparr>"
  have f: "findById ''u1'' [?u] = Some ?u" and act: "isActive ?u"
    and tk: "refreshToken ?u \<noteq> Some ''R:u1''"
    by (simp_all add: findById_def findOne_def alice_def)
  show ?thesis
    using refresh_never_mutates [of demo_env 0 "Some ''R:u1''" "[?u]" "''R:u1''"
        "\<lparr>userId = ''u1'', iat = 0, exp = 1\<rparr>" ?u] f act tk
    by simp
qed

subsection \<open>login\<close>

lemma demo_casts:
  "trim demo_env ''bob'' = ''bob''" "toLowerCase demo_env ''bob'' = ''bob''"
  "trim demo_env ''ALICE@X.COM'' = ''ALICE@X.COM''"
  "toLowerCase demo_env ''ALICE@X.COM'' = ''alice@x.com''"
  "trim demo_env '' alice '' = ''alice''" "toLowerCase demo_env ''alice'' = ''alice''"
  "trim demo_env ''alice@x.com'' = ''alice@x.com''"
  "toLowerCase demo_env ''alice@x.com'' = ''alice@x.com''"
  "trim demo_env ''bob@x.com'' = ''bob@x.com''"
  "toLowerCase demo_env ''bob@x.com'' = ''bob@x.com''"
  by (simp_all add: demo_env_def trim_blanks_def blank_def lower_char_def)

text \<open>
  C3. \<open>login\<close> fails with one and the same error, "Invalid credentials" with status 401,
  when no stored user matches the identifier (no email is the trimmed, lowercased
  identifier and no username the trimmed identifier, the filter as the schema casts it)
  and when the found user's password hash does not match: the two results are equal.
  Otherwise a user who is not verified is refused with 403 "Please verify your email"
  (whether active or not), and a verified user who is not active with 403
  "Account is disabled". No failure changes the store.
\<close>

theorem login_failures:
  "((\<forall>v\<in>set db. email v \<noteq> toLowerCase E (trim E ident) \<and>
                  username v \<noteq> trim E ident) \<longrightarrow>
      login E now ident pwd db = (Inl (ApiError ''Invalid credentials'' 401), db)) \<and>
   (findOne (\<lambda>v. email v = toLowerCase E (trim E ident) \<or>
                   username v = trim E ident) db = Some u \<and> \<not> bcrypt_compare E pwd (password u) \<longrightarrow>
      login E now ident pwd db = (Inl (ApiError ''Invalid credentials'' 401), db)) \<and>
   (findOne (\<lambda>v. email v = toLowerCase E (trim E ident) \<or>
                   username v = trim E ident) db = Some u \<and>
    bcrypt_compare E pwd (password u) \<and> \<not> isVerified u \<longrightarrow>
      login E now ident pwd db = (Inl (ApiError ''Please verify your email'' 403), db)) \<and>
   (findOne (\<lambda>v. email v = toLowerCase E (trim E ident) \<or>
                   username v = trim E ident) db = Some u \<and>
    bcrypt_compare E pwd (password u) \<and> isVerified u \<and> \<not> isActive u \<longrightarrow>
      login E now ident pwd db = (Inl (ApiError ''Account is disabled'' 403), db))"
proof -
  have "(\<forall>v\<in>set db. email v \<noteq> toLowerCase E (trim E ident) \<and>
                  username v \<noteq> trim E ident) \<Longrightarrow>
      findOne (\<lambda>v. email v = toLowerCase E (trim E ident) \<or>
                   username v = trim E ident) db = None"
    by (simp add: findOne_None_iff login_query_def)
  then show ?thesis
    by (auto simp: login_def login_query_def cast_email_def cast_username_def)
qed

text \<open>An unknown identifier; the email in capitals with a wrong password; the username
  between blanks, of a user who is neither verified nor active; the email of a disabled
  user.\<close>

theorem login_failures_witness:
  "login demo_env 0 ''bob'' ''Pw1!aaaa'' [alice] = (Inl (ApiError ''Invalid credentials'' 401), [alice]) \<and>
   login demo_env 0 ''ALICE@X.COM'' ''wrong'' [alice] =
     (Inl (ApiError ''Invalid credentials'' 401), [alice]) \<and>
   login demo_env 0 '' alice '' ''Pw1!aaaa'' [alice\<lparr>isVerified := False, isActive := False\<rparr>] =
     (Inl (ApiError ''Please verify your email'' 403), [alice\<lparr>isVerified := False, isActive := False\<rparr>]) \<and>
   login demo_env 0 ''alice@x.com'' ''Pw1!aaaa'' [alice\<lparr>isActive := False\<rparr>] =
     (Inl (ApiError ''Account is disabled'' 403), [alice\<lparr>isActive := False\<rparr>])"
proof -
  let ?nv = "alice\<lparr>isVerified := False, isActive := False\<rparr>"
  let ?na = "alice\<lparr>isActive := False\<rparr>"
  have a: "\<forall>v\<in>set [alice]. email v \<noteq> toLowerCase demo_env (trim demo_env ''bob'') \<and>
      username v \<noteq> trim demo_env ''bob''"
    by (simp add: alice_def demo_casts)
  have b: "findOne (\<lambda>v. email v = toLowerCase demo_env (trim demo_env ''ALICE@X.COM'') \<or>
                   username v = trim demo_env ''ALICE@X.COM'') [alice] = Some alice"
    "\<not> bcrypt_compare demo_env ''wrong'' (password alice)"
    by (simp_all add: findOne_def login_query_def demo_casts alice_def) (simp add: demo_env_def)
  have c: "findOne (\<lambda>v. email v = toLowerCase demo_env (trim demo_env '' alice '') \<or>
                   username v = trim demo_env '' alice '') [?nv] = Some ?nv"
    "bcrypt_compare demo_env ''Pw1!aaaa'' (password ?nv)" "\<not> isVerified ?nv"
    by (simp_all add: findOne_def login_query_def demo_casts alice_def) (simp add: demo_env_def)
  have d: "findOne (\<lambda>v. email v = toLowerCase demo_env (trim demo_env ''alice@x.com'') \<or>
                   username v = trim demo_env ''alice@x.com'') [?na] = Some ?na"
    "bcrypt_compare demo_env ''Pw1!aaaa'' (password ?na)" "isVerified ?na" "\<not> isActive ?na"
    by (simp_all add: findOne_def login_query_def demo_casts alice_def) (simp add: demo_env_def)
  have c1: "login demo_env 0 ''bob'' ''Pw1!aaaa'' [alice] =
      (Inl (ApiError ''Invalid credentials'' 401), [alice])"
    using login_failures [where db = "[alice]" and ident = "''bob''" and E = demo_env
          and now = 0 and pwd = "''Pw1!aaaa''" and u = alice] a
    by blast
  have c2: "login demo_env 0 ''ALICE@X.COM'' ''wrong'' [alice] =
      (Inl (ApiError ''Invalid credentials'' 401), [alice])"
    using login_failures [where db = "[alice]" and ident = "''ALICE@X.COM''" and E = demo_env
          and now = 0 and pwd = "''wrong''" and u = alice] b
    by blast
  have c3: "login demo_env 0 '' alice '' ''Pw1!aaaa'' [?nv] =
      (Inl (ApiError ''Please verify your email'' 403), [?nv])"
    using login_failures [where db = "[?nv]" and ident = "'' alice ''" and E = demo_env
          and now = 0 and pwd = "''Pw1!aaaa''" and u = ?nv] c
    by blast
  have c4: "login demo_env 0 ''alice@x.com'' ''Pw1!aaaa'' [?na] =
      (Inl (ApiError ''Account is disabled'' 403), [?na])"
    using login_failures [where db = "[?na]" and ident = "''alice@x.com''" and E = demo_env
          and now = 0 and pwd = "''Pw1!aaaa''" and u = ?na] d
    by blast
  show ?thesis
    using c1 c2 c3 c4 by blast
qed



subsection \<open>verifyEmail\<close>

text \<open>
  C5. \<open>verifyEmail\<close> fails with 400 "Invalid or expired token" when no stored user has
  the digest of the raw token as verification hash together with an expiry later than
  now. Otherwise it verifies the first such user: isVerified becomes true, the hash and
  its expiry are both cleared, and nobody else changes. The token is then spent: where
  ids are unique (the store's guarantee) and that user was the only holder of the hash
  (raw tokens are 32 random bytes), presenting the same raw token again, at any time,
  fails with the same 400 error.
\<close>

theorem verifyEmail_single_use:
  "((\<forall>v\<in>set db. \<not> (emailVerificationToken v = Some (sha256 E token) \<and>
                      gt_now now (emailVerificationExpires v))) \<longrightarrow>
      verifyEmail E now token db = (Inl (ApiError ''Invalid or expired token'' 400), db)) \<and>
   (findOne (verification_query (sha256 E token) now) db = Some u \<longrightarrow>
      fst (verifyEmail E now token db) = Inr ''Email verified successfully'' \<and>
      findById (user_id u) (snd (verifyEmail E now token db)) =
        Some (u\<lparr>isVerified := True, emailVerificationToken := None,
                emailVerificationExpires := None\<rparr>) \<and>
      (\<forall>i. i \<noteq> user_id u \<longrightarrow>
         findById i (snd (verifyEmail E now token db)) = findById i db) \<and>
      (unique_ids db \<and>
       (\<forall>v\<in>set db. emailVerificationToken v = Some (sha256 E token) \<longrightarrow> v = u) \<longrightarrow>
         (\<forall>now'. verifyEmail E now' token (snd (verifyEmail E now token db)) =
            (Inl (ApiError ''Invalid or expired token'' 400),
             snd (verifyEmail E now token db)))))"
proof (intro conjI impI)
  assume "\<forall>v\<in>set db. \<not> (emailVerificationToken v = Some (sha256 E token) \<and>
                      gt_now now (emailVerificationExpires v))"
  then have "findOne (verification_query (sha256 E token) now) db = None"
    by (simp add: findOne_None_iff verification_query_def)
  then show "verifyEmail E now token db = (Inl (ApiError ''Invalid or expired token'' 400), db)"
    by (simp add: verifyEmail_def)
next
  let ?u' = "u\<lparr>isVerified := True, emailVerificationToken := None,
                emailVerificationExpires := None\<rparr>"
  assume f: "findOne (verification_query (sha256 E token) now) db = Some u"
  then have r: "verifyEmail E now token db = (Inr ''Email verified successfully'', save ?u' db)"
    by (simp add: verifyEmail_def)
  from f have mem: "u \<in> set db" by (simp add: findOne_SomeD)
  then obtain v where v: "findById (user_id u) db = Some v"
    using findById_member by fastforce
  show "fst (verifyEmail E now token db) = Inr ''Email verified successfully''"
    using r by simp
  show "findById (user_id u) (snd (verifyEmail E now token db)) = Some ?u'"
    using r v findById_save_same [of ?u' "user_id u" db] by simp
  show "\<forall>i. i \<noteq> user_id u \<longrightarrow>
         findById i (snd (verifyEmail E now token db)) = findById i db"
    using r findById_save_other [of ?u' _ db] by simp
  assume inv: "unique_ids db \<and>
       (\<forall>v\<in>set db. emailVerificationToken v = Some (sha256 E token) \<longrightarrow> v = u)"
  have s: "set (save ?u' db) = insert ?u' (set db - {u})"
    using inv mem set_save_unique [of db u ?u'] by simp
  have none: "findOne (verification_query (sha256 E token) now') (save ?u' db) = None" for now'
    unfolding findOne_None_iff s using inv by (auto simp: verification_query_def)
  show "\<forall>now'. verifyEmail E now' token (snd (verifyEmail E now token db)) =
            (Inl (ApiError ''Invalid or expired token'' 400),
             snd (verifyEmail E now token db))"
    using r none by (simp add: verifyEmail_def)
qed

theorem verifyEmail_single_use_witness:
  "verifyEmail demo_env 50 ''t1'' [pending] =
     (Inl (ApiError ''Invalid or expired token'' 400), [pending]) \<and>
   verifyEmail demo_env 100 ''t0'' [pending] =
     (Inl (ApiError ''Invalid or expired token'' 400), [pending]) \<and>
   fst (verifyEmail demo_env 50 ''t0'' [pending]) = Inr ''Email verified successfully'' \<and>
   findById ''u1'' (snd (verifyEmail demo_env 50 ''t0'' [pending])) =
     Some (alice\<lparr>refreshToken := None\<rparr>) \<and>
   verifyEmail demo_env 60 ''t0'' (snd (verifyEmail demo_env 50 ''t0'' [pending])) =
     (Inl (ApiError ''Invalid or expired token'' 400),
      snd (verifyEmail demo_env 50 ''t0'' [pending]))"
proof -
  have a: "\<forall>v\<in>set [pending]. \<not> (emailVerificationToken v = Some (sha256 demo_env ''t1'') \<and>
                      gt_now 50 (emailVerificationExpires v))"
    "\<forall>v\<in>set [pending]. \<not> (emailVerificationToken v = Some (sha256 demo_env ''t0'') \<and>
                      gt_now 100 (emailVerificationExpires v))"
    by (simp_all add: pending_def alice_def demo_env_def)
  have b: "findOne (verification_query (sha256 demo_env ''t0'') 50) [pending] = Some pending"
    by (simp add: findOne_def verification_query_def pending_def alice_def demo_env_def)
  have c: "unique_ids [pending]"
    "\<forall>v\<in>set [pending]. emailVerificationToken v = Some (sha256 demo_env ''t0'') \<longrightarrow> v = pending"
    by (simp_all add: unique_ids_def)
  have e: "user_id pending = ''u1''"
    "pending\<lparr>isVerified := True, emailVerificationToken := None,
        emailVerificationExpires := None\<rparr> = alice\<lparr>refreshToken := None\<rparr>"
    by (simp_all add: pending_def alice_def)
  show ?thesis
    using verifyEmail_single_use [where db = "[pending]" and E = demo_env and token = "''t1''"
          and now = 50 and u = pending]
      verifyEmail_single_use [where db = "[pending]" and E = demo_env and token = "''t0''"
          and now = 100 and u = pending]
      verifyEmail_single_use [where db = "[pending]" and E = demo_env and token = "''t0''"
          and now = 50 and u = pending]
      a b c e
    by simp
qed

subsection \<open>logout\<close>



subsection \<open>authProtect\<close>

lemma split_space_not_Nil: "split_space s \<noteq> []"
  by (induction s) (auto split: list.splits)

lemma hd_split_space: "hd (split_space s) = takeWhile (\<lambda>c. c \<noteq> CHR '' '') s"
  using split_space_not_Nil by (induction s) (auto split: list.splits)

lemma bearer_token:
  assumes "startsWith h ''Bearer ''"
  shows "second (split_space h) = Some (takeWhile (\<lambda>c. c \<noteq> CHR '' '') (drop 7 h))"
proof -
  from assms have t: "take 7 h = ''Bearer ''"
    by (simp add: startsWith_def eval_nat_numeral)
  define r where "r = drop 7 h"
  have h: "h = ''Bearer '' @ r"
    unfolding r_def using t append_take_drop_id [of 7 h] by metis
  obtain w ws where ws: "split_space r = w # ws"
    using split_space_not_Nil by (cases "split_space r") auto
  have "w = takeWhile (\<lambda>c. c \<noteq> CHR '' '') r"
    using hd_split_space [of r] ws by simp
  moreover have "split_space h = ''Bearer'' # w # ws"
    by (subst h) (simp add: ws)
  ultimately show ?thesis
    by (simp add: second_def r_def)
qed

text \<open>
  C7. \<open>authProtect\<close> fails with 401 when the authorization header is missing, is not a string,
  or does not start with "Bearer ". Otherwise the token is the text after "Bearer " up
  to the next space, and it fails with 403 when \<^verbatim>\<open>jwt.verify\<close> rejects it; when no
  stored user has the decoded id, the 404 "User no longer exists" thrown inside the
  \<^verbatim>\<open>try\<close> block is caught and replaced by the 403; a disabled account fails with 403 as
  well; and on success the request is passed on with the decoded userId and the user's
  role attached.
\<close>

theorem authProtect_contract:
  "((\<forall>h. authHeader req = Some (HString h) \<longrightarrow> \<not> startsWith h ''Bearer '') \<longrightarrow>
      authProtect E now req db = Inl (ApiError ''Unauthorized: No token provided'' 401)) \<and>
   (authHeader req = Some (HString h) \<and> startsWith h ''Bearer '' \<and>
    t = takeWhile (\<lambda>c. c \<noteq> CHR '' '') (drop 7 h) \<longrightarrow>
      (jwt_verify E t (ACCESS_TOKEN_SECRET E) now = None \<longrightarrow>
         authProtect E now req db = Inl (ApiError ''Forbidden: Invalid or expired token'' 403)) \<and>
      (jwt_verify E t (ACCESS_TOKEN_SECRET E) now = Some d \<and> findById (userId d) db = None \<longrightarrow>
         authProtect_try E now (Some t) req db =
           Inl (Thrown (ApiError ''User no longer exists'' 404)) \<and>
         authProtect E now req db = Inl (ApiError ''Forbidden: Invalid or expired token'' 403)) \<and>
      (jwt_verify E t (ACCESS_TOKEN_SECRET E) now = Some d \<and>
       findById (userId d) db = Some u \<and> \<not> isActive u \<longrightarrow>
         authProtect E now req db = Inl (ApiError ''Forbidden: Invalid or expired token'' 403)) \<and>
      (jwt_verify E t (ACCESS_TOKEN_SECRET E) now = Some d \<and>
       findById (userId d) db = Some u \<and> isActive u \<longrightarrow>
         authProtect E now req db =
           Inr (req\<lparr>req_userId := Some (userId d), req_userRole := Some (role u)\<rparr>)))"
proof (intro conjI impI)
  assume "\<forall>h. authHeader req = Some (HString h) \<longrightarrow> \<not> startsWith h ''Bearer ''"
  then show "authProtect E now req db = Inl (ApiError ''Unauthorized: No token provided'' 401)"
    by (auto simp: authProtect_def split: option.splits header_value.splits)
next
  assume a: "authHeader req = Some (HString h) \<and> startsWith h ''Bearer '' \<and>
    t = takeWhile (\<lambda>c. c \<noteq> CHR '' '') (drop 7 h)"
  then have tk: "second (split_space h) = Some t"
    by (simp add: bearer_token)
  have r: "authProtect E now req db =
      (case authProtect_try E now (Some t) req db of
         Inl e \<Rightarrow> Inl (ApiError ''Forbidden: Invalid or expired token'' 403)
       | Inr req' \<Rightarrow> Inr req')"
    using a tk by (simp add: authProtect_def)
  {
    assume "jwt_verify E t (ACCESS_TOKEN_SECRET E) now = None"
    then show "authProtect E now req db = Inl (ApiError ''Forbidden: Invalid or expired token'' 403)"
      by (simp add: r authProtect_try_def)
  }
  {
    assume b: "jwt_verify E t (ACCESS_TOKEN_SECRET E) now = Some d \<and> findById (userId d) db = None"
    then show "authProtect_try E now (Some t) req db =
           Inl (Thrown (ApiError ''User no longer exists'' 404))"
      by (simp add: authProtect_try_def)
    from b show "authProtect E now req db = Inl (ApiError ''Forbidden: Invalid or expired token'' 403)"
      by (simp add: r authProtect_try_def)
  }
  {
    assume "jwt_verify E t (ACCESS_TOKEN_SECRET E) now = Some d \<and>
       findById (userId d) db = Some u \<and> \<not> isActive u"
    then show "authProtect E now req db = Inl (ApiError ''Forbidden: Invalid or expired token'' 403)"
      by (simp add: r authProtect_try_def)
  }
  {
    assume "jwt_verify E t (ACCESS_TOKEN_SECRET E) now = Some d \<and>
       findById (userId d) db = Some u \<and> isActive u"
    then show "authProtect E now req db =
           Inr (req\<lparr>req_userId := Some (userId d), req_userRole := Some (role u)\<rparr>)"
      by (simp add: r authProtect_try_def)
  }
qed

theorem authProtect_contract_witness:
  "authProtect demo_env 0 (bearer_req ''Basic A:u1'') [alice] =
     Inl (ApiError ''Unauthorized: No token provided'' 401) \<and>
   authProtect demo_env 0 (bearer_req ''Bearer junk'') [alice] =
     Inl (ApiError ''Forbidden: Invalid or expired token'' 403) \<and>
   authProtect_try demo_env 0 (Some ''A:u2'') (bearer_req ''Bearer A:u2'') [alice] =
     Inl (Thrown (ApiError ''User no longer exists'' 404)) \<and>
   authProtect demo_env 0 (bearer_req ''Bearer A:u2'') [alice] =
     Inl (ApiError ''Forbidden: Invalid or expired token'' 403) \<and>
   authProtect demo_env 0 (bearer_req ''Bearer A:u1'') [alice\<lparr>isActive := False\<rparr>] =
     Inl (ApiError ''Forbidden: Invalid or expired token'' 403) \<and>
   authProtect demo_env 0 (bearer_req ''Bearer A:u1'') [alice] =
     Inr ((bearer_req ''Bearer A:u1'')\<lparr>req_userId := Some ''u1'', req_userRole := Some RUser\<rparr>)"
proof -
  let ?d1 = "\<lparr>userId = ''u1'', iat = 0, exp = 1\<rparr>"
  let ?d2 = "\<lparr>userId = ''u2'', iat = 0, exp = 1\<rparr>"
  let ?off = "alice\<lparr>isActive := False\<rparr>"
  have hd: "h \<noteq> [] \<Longrightarrow> authHeader (bearer_req h) = Some (HString h)" for h
    by (simp add: authHeader_def bearer_req_def)
  have sw: "\<not> startsWith ''Basic A:u1'' ''Bearer ''" "startsWith ''Bearer junk'' ''Bearer ''"
    "startsWith ''Bearer A:u2'' ''Bearer ''" "startsWith ''Bearer A:u1'' ''Bearer ''"
    by (simp_all add: startsWith_def)
  have tk: "takeWhile (\<lambda>c. c \<noteq> CHR '' '') (drop 7 ''Bearer junk'') = ''junk''"
    "takeWhile (\<lambda>c. c \<noteq> CHR '' '') (drop 7 ''Bearer A:u2'') = ''A:u2''"
    "takeWhile (\<lambda>c. c \<noteq> CHR '' '') (drop 7 ''Bearer A:u1'') = ''A:u1''"
    by (simp_all add: eval_nat_numeral)
  have nojunk: "jwt_verify demo_env ''junk'' (ACCESS_TOKEN_SECRET demo_env) 0 = None"
    by (simp add: demo_env_def)
  have f: "findById ''u1'' [alice] = Some alice" "findById ''u2'' [alice] = None"
    "findById ''u1'' [?off] = Some ?off" "isActive alice" "\<not> isActive ?off" "role alice = RUser"
    by (simp_all add: findById_def findOne_def alice_def)
  show ?thesis
    using authProtect_contract [where req = "bearer_req ''Basic A:u1''" and E = demo_env
          and now = 0 and db = "[alice]" and h = "''Basic A:u1''" and t = "''x''" and d = ?d1
          and u = alice]
      authProtect_contract [where req = "bearer_req ''Bearer junk''" and E = demo_env
          and now = 0 and db = "[alice]" and h = "''Bearer junk''" and t = "''junk''" and d = ?d1
          and u = alice]
      authProtect_contract [where req = "bearer_req ''Bearer A:u2''" and E = demo_env
          and now = 0 and db = "[alice]" and h = "''Bearer A:u2''" and t = "''A:u2''" and d = ?d2
          and u = alice]
      authProtect_contract [where req = "bearer_req ''Bearer A:u1''" and E = demo_env
          and now = 0 and db = "[?off]" and h = "''Bearer A:u1''" and t = "''A:u1''" and d = ?d1
          and u = ?off]
      authProtect_contract [where req = "bearer_req ''Bearer A:u1''" and E = demo_env
          and now = 0 and db = "[alice]" and h = "''Bearer A:u1''" and t = "''A:u1''" and d = ?d1
          and u = alice]
      hd sw tk nojunk f
    by simp
qed

subsection \<open>resetPassword\<close>

lemma findById_unique:
  "unique_ids db \<Longrightarrow> u \<in> set db \<Longrightarrow> findById (user_id u) db = Some u"
  by (induction db) (auto simp: unique_ids_def findById_def findOne_def)

lemma refresh_reads:
  assumes "\<And>i. rel_option (\<lambda>v w. user_id v = user_id w \<and> isActive v = isActive w \<and>
              refreshToken v = refreshToken w) (findById i db) (findById i db')"
  shows "fst (refresh E now cookie db) = fst (refresh E now cookie db')"
proof (cases cookie)
  case None
  then show ?thesis by (simp add: refresh_def)
next
  case (Some tok)
  show ?thesis
  proof (cases "jwt_verify E tok (REFRESH_TOKEN_SECRET E) now")
    case None
    then show ?thesis using Some by (simp add: refresh_def)
  next
    case (Some d)
    from assms [of "userId d"] show ?thesis
      using Some \<open>cookie = Some tok\<close>
      by (cases "findById (userId d) db"; cases "findById (userId d) db'")
        (auto simp: refresh_def)
  qed
qed

lemma resetPassword_no_match:
  "(\<forall>v\<in>set db. \<not> (passwordResetToken v = Some (sha256 E token) \<and>
                     gt_now now (passwordResetExpires v))) \<Longrightarrow>
   resetPassword E now salt token newPassword db =
     (Inl (ApiError ''Invalid or expired token'' 400), db)"
proof -
  assume "\<forall>v\<in>set db. \<not> (passwordResetToken v = Some (sha256 E token) \<and>
                     gt_now now (passwordResetExpires v))"
  then have "findOne (reset_query (sha256 E token) now) db = None"
    by (simp add: findOne_None_iff reset_query_def)
  then show ?thesis
    by (simp add: resetPassword_def)
qed

lemma resetPassword_on_match:
  "findOne (reset_query (sha256 E token) now) db = Some u \<longrightarrow>
     fst (resetPassword E now salt token newPassword db) = Inr () \<and>
     (\<exists>u'. findById (user_id u) (snd (resetPassword E now salt token newPassword db)) = Some u' \<and>
        password u' = bcrypt_hash E newPassword salt \<and>
        passwordResetToken u' = None \<and> passwordResetExpires u' = None \<and>
        refreshToken u' = refreshToken u \<and>
        u'\<lparr>password := password u, passwordResetToken := passwordResetToken u,
           passwordResetExpires := passwordResetExpires u\<rparr> = u) \<and>
     (\<forall>i. i \<noteq> user_id u \<longrightarrow>
        findById i (snd (resetPassword E now salt token newPassword db)) = findById i db) \<and>
     map user_id (snd (resetPassword E now salt token newPassword db)) = map user_id db \<and>
     (unique_ids db \<longrightarrow>
        (\<forall>E' now' cookie.
           fst (refresh E' now' cookie (snd (resetPassword E now salt token newPassword db))) =
           fst (refresh E' now' cookie db)))"
proof (intro impI)
  let ?u' = "u\<lparr>password := bcrypt_hash E newPassword salt, passwordResetToken := None,
                passwordResetExpires := None\<rparr>"
  let ?db' = "snd (resetPassword E now salt token newPassword db)"
  assume f: "findOne (reset_query (sha256 E token) now) db = Some u"
  then have r: "resetPassword E now salt token newPassword db = (Inr (), save ?u' db)"
    by (simp add: resetPassword_def)
  from f have mem: "u \<in> set db" by (simp add: findOne_SomeD)
  then obtain v where v: "findById (user_id u) db = Some v"
    using findById_member by fastforce
  have same: "findById (user_id u) ?db' = Some ?u'"
    using r v findById_save_same [of ?u' "user_id u" db] by simp
  have other: "i \<noteq> user_id u \<Longrightarrow> findById i ?db' = findById i db" for i
    using r findById_save_other [of ?u' i db] by simp
  have c1: "fst (resetPassword E now salt token newPassword db) = Inr ()"
    using r by simp
  have c2: "\<exists>u'. findById (user_id u) ?db' = Some u' \<and>
        password u' = bcrypt_hash E newPassword salt \<and>
        passwordResetToken u' = None \<and> passwordResetExpires u' = None \<and>
        refreshToken u' = refreshToken u \<and>
        u'\<lparr>password := password u, passwordResetToken := passwordResetToken u,
           passwordResetExpires := passwordResetExpires u\<rparr> = u"
    using same by simp
  have c3: "\<forall>i. i \<noteq> user_id u \<longrightarrow> findById i ?db' = findById i db"
    using other by simp
  have c4: "map user_id ?db' = map user_id db"
    using r by (simp add: map_id_save)
  have c5: "unique_ids db \<longrightarrow>
      (\<forall>E' now' cookie. fst (refresh E' now' cookie ?db') = fst (refresh E' now' cookie db))"
  proof (intro impI allI)
    fix E' now' cookie
    assume "unique_ids db"
    then have u: "findById (user_id u) db = Some u"
      using mem by (rule findById_unique)
    have "rel_option (\<lambda>v w. user_id v = user_id w \<and> isActive v = isActive w \<and>
              refreshToken v = refreshToken w) (findById i ?db') (findById i db)" for i
    proof (cases "i = user_id u")
      case True
      then show ?thesis using same u by simp
    next
      case False
      then show ?thesis using other [of i] by (simp add: option.rel_refl)
    qed
    then show "fst (refresh E' now' cookie ?db') = fst (refresh E' now' cookie db)"
      by (rule refresh_reads)
  qed
  from c1 c2 c3 c4 c5
  show "fst (resetPassword E now salt token newPassword db) = Inr () \<and>
     (\<exists>u'. findById (user_id u) ?db' = Some u' \<and>
        password u' = bcrypt_hash E newPassword salt \<and>
        passwordResetToken u' = None \<and> passwordResetExpires u' = None \<and>
        refreshToken u' = refreshToken u \<and>
        u'\<lparr>password := password u, passwordResetToken := passwordResetToken u,
           passwordResetExpires := passwordResetExpires u\<rparr> = u) \<and>
     (\<forall>i. i \<noteq> user_id u \<longrightarrow> findById i ?db' = findById i db) \<and>
     map user_id ?db' = map user_id db \<and>
     (unique_ids db \<longrightarrow>
        (\<forall>E' now' cookie. fst (refresh E' now' cookie ?db') = fst (refresh E' now' cookie db)))"
    by blast
qed

text \<open>
  C8. \<open>resetPassword\<close> succeeds only on a match: when no stored user has the digest of
  the token as reset hash together with an expiry later than now, it fails with 400
  "Invalid or expired token" and the store is unchanged. On a match it succeeds and
  stores the user with a new password hash and with the reset token hash and its expiry
  cleared. Every other field of that user is as it was, the refreshToken among them, and
  no other user changes; so, ids being unique, every \<open>refresh\<close> answers after the reset
  as it did before: the session survives.
\<close>

theorem resetPassword_frame:
  "((\<forall>v\<in>set db. \<not> (passwordResetToken v = Some (sha256 E token) \<and>
                      gt_now now (passwordResetExpires v))) \<longrightarrow>
      resetPassword E now salt token newPassword db =
        (Inl (ApiError ''Invalid or expired token'' 400), db)) \<and>
   (findOne (reset_query (sha256 E token) now) db = Some u \<longrightarrow>
      fst (resetPassword E now salt token newPassword db) = Inr () \<and>
      (\<exists>u'. findById (user_id u) (snd (resetPassword E now salt token newPassword db)) = Some u' \<and>
         password u' = bcrypt_hash E newPassword salt \<and>
         passwordResetToken u' = None \<and> passwordResetExpires u' = None \<and>
         refreshToken u' = refreshToken u \<and>
         u'\<lparr>password := password u, passwordResetToken := passwordResetToken u,
            passwordResetExpires := passwordResetExpires u\<rparr> = u) \<and>
      (\<forall>i. i \<noteq> user_id u \<longrightarrow>
         findById i (snd (resetPassword E now salt token newPassword db)) = findById i db) \<and>
      map user_id (snd (resetPassword E now salt token newPassword db)) = map user_id db \<and>
      (unique_ids db \<longrightarrow>
         (\<forall>E' now' cookie.
            fst (refresh E' now' cookie (snd (resetPassword E now salt token newPassword db))) =
            fst (refresh E' now' cookie db))))"
  using resetPassword_no_match [of db E token now salt newPassword]
    resetPassword_on_match [of E token now db u salt newPassword]
  by blast

text \<open>A wrong token and an expired one are refused; the right one in time replaces the
  password and leaves the refresh token, with which \<open>refresh\<close> still succeeds.\<close>

theorem resetPassword_frame_witness:
  "resetPassword demo_env 50 ''s'' ''r1'' ''NewPw1!a'' [resetting] =
     (Inl (ApiError ''Invalid or expired token'' 400), [resetting]) \<and>
   resetPassword demo_env 100 ''s'' ''r0'' ''NewPw1!a'' [resetting] =
     (Inl (ApiError ''Invalid or expired token'' 400), [resetting]) \<and>
   fst (resetPassword demo_env 50 ''s'' ''r0'' ''NewPw1!a'' [resetting]) = Inr () \<and>
   findById ''u1'' (snd (resetPassword demo_env 50 ''s'' ''r0'' ''NewPw1!a'' [resetting])) =
     Some (alice\<lparr>password := ''$NewPw1!a''\<rparr>) \<and>
   refreshToken (alice\<lparr>password := ''$NewPw1!a''\<rparr>) = Some ''R:u1'' \<and>
   fst (refresh demo_env 60 (Some ''R:u1'')
          (snd (resetPassword demo_env 50 ''s'' ''r0'' ''NewPw1!a'' [resetting]))) =
     Inr \<lparr>accessToken = ''A:u1''\<rparr>"
proof -
  have n: "\<forall>v\<in>set [resetting]. \<not> (passwordResetToken v = Some (sha256 demo_env ''r1'') \<and>
                     gt_now 50 (passwordResetExpires v))"
    "\<forall>v\<in>set [resetting]. \<not> (passwordResetToken v = Some (sha256 demo_env ''r0'') \<and>
                     gt_now 100 (passwordResetExpires v))"
    by (simp_all add: resetting_def alice_def demo_env_def)
  have h: "findOne (reset_query (sha256 demo_env ''r0'') 50) [resetting] = Some resetting"
    by (simp add: findOne_def reset_query_def resetting_def alice_def demo_env_def)
  have uq: "unique_ids [resetting]"
    by (simp add: unique_ids_def)
  have e: "user_id resetting = ''u1''" "bcrypt_hash demo_env ''NewPw1!a'' ''s'' = ''$NewPw1!a''"
    "refreshToken (alice\<lparr>password := ''$NewPw1!a''\<rparr>) = Some ''R:u1''"
    "resetting\<lparr>password := ''$NewPw1!a'', passwordResetToken := None,
        passwordResetExpires := None\<rparr> = alice\<lparr>password := ''$NewPw1!a''\<rparr>"
    by (simp_all add: resetting_def alice_def demo_env_def)
  have before: "fst (refresh demo_env 60 (Some ''R:u1'') [resetting]) = Inr \<lparr>accessToken = ''A:u1''\<rparr>"
    by (simp add: refresh_def findById_def findOne_def resetting_def alice_def signAccessToken_def)
      (simp add: demo_env_def)
  have c1: "resetPassword demo_env 50 ''s'' ''r1'' ''NewPw1!a'' [resetting] =
      (Inl (ApiError ''Invalid or expired token'' 400), [resetting])"
    using resetPassword_frame [where E = demo_env and token = "''r1''" and now = 50
      and db = "[resetting]" and u = resetting and salt = "''s''"
      and newPassword = "''NewPw1!a''", THEN conjunct1] n(1)
    by blast
  have c2: "resetPassword demo_env 100 ''s'' ''r0'' ''NewPw1!a'' [resetting] =
      (Inl (ApiError ''Invalid or expired token'' 400), [resetting])"
    using resetPassword_frame [where E = demo_env and token = "''r0''" and now = 100
      and db = "[resetting]" and u = resetting and salt = "''s''"
      and newPassword = "''NewPw1!a''", THEN conjunct1] n(2)
    by blast
  note m = resetPassword_frame [where E = demo_env and token = "''r0''" and now = 50
      and db = "[resetting]" and u = resetting and salt = "''s''"
      and newPassword = "''NewPw1!a''", THEN conjunct2, rule_format, OF h]
  have c3: "fst (resetPassword demo_env 50 ''s'' ''r0'' ''NewPw1!a'' [resetting]) = Inr ()"
    using m by blast
  have "\<exists>u'. findById ''u1''
        (snd (resetPassword demo_env 50 ''s'' ''r0'' ''NewPw1!a'' [resetting])) = Some u' \<and>
      password u' = ''$NewPw1!a'' \<and>
      passwordResetToken u' = None \<and> passwordResetExpires u' = None \<and>
      u'\<lparr>password := password resetting, passwordResetToken := passwordResetToken resetting,
           passwordResetExpires := passwordResetExpires resetting\<rparr> = resetting"
    using m e(1,2) by auto
  then obtain u' where u': "findById ''u1''
        (snd (resetPassword demo_env 50 ''s'' ''r0'' ''NewPw1!a'' [resetting])) = Some u'"
      "password u' = ''$NewPw1!a''"
      "passwordResetToken u' = None" "passwordResetExpires u' = None"
      "u'\<lparr>password := password resetting, passwordResetToken := passwordResetToken resetting,
           passwordResetExpires := passwordResetExpires resetting\<rparr> = resetting"
    by blast
  have "u' = alice\<lparr>password := ''$NewPw1!a''\<rparr>"
    using u'(2,3,4,5) by (cases u') (simp add: resetting_def alice_def)
  then have c4: "findById ''u1''
      (snd (resetPassword demo_env 50 ''s'' ''r0'' ''NewPw1!a'' [resetting])) =
      Some (alice\<lparr>password := ''$NewPw1!a''\<rparr>)"
    using u'(1) by simp
  have c5: "fst (refresh demo_env 60 (Some ''R:u1'')
          (snd (resetPassword demo_env 50 ''s'' ''r0'' ''NewPw1!a'' [resetting]))) =
        Inr \<lparr>accessToken = ''A:u1''\<rparr>"
    using m uq before by simp
  show ?thesis
    using c1 c2 c3 c4 c5 e(3) by blast
qed

subsection \<open>resendVerificationEmail and forgotPassword\<close>

text \<open>
  C9. \<open>resendVerificationEmail\<close> and \<open>forgotPassword\<close> never fail: whatever the store
  holds, the value they return is the same, so the result does not tell a run on a store
  that has the account from a run on one that has not. When no stored user has the
  email (the trimmed, lowercased input, the filter as the schema casts it), and for
  \<open>resendVerificationEmail\<close> also when the user found is already verified, they return
  with the store unchanged and no mail sent. In the other runs they store the digest of
  a fresh raw token with its expiry (24 hours, 1 hour) on the user found and hand one
  mail with the raw token to the sink.
\<close>

theorem anti_enumeration:
  "fst (resendVerificationEmail E now raw m db) = Inr () \<and>
   fst (forgotPassword E now raw m db) = Inr () \<and>
   fst (resendVerificationEmail E now raw m db) =
     fst (resendVerificationEmail E' now' raw' m' db') \<and>
   fst (forgotPassword E now raw m db) = fst (forgotPassword E' now' raw' m' db') \<and>
   ((\<forall>v\<in>set db. email v \<noteq> toLowerCase E (trim E m)) \<longrightarrow>
      resendVerificationEmail E now raw m db = (Inr (), db, []) \<and>
      forgotPassword E now raw m db = (Inr (), db, [])) \<and>
   (findOne (\<lambda>v. email v = toLowerCase E (trim E m)) db = Some u \<longrightarrow>
      (isVerified u \<longrightarrow> resendVerificationEmail E now raw m db = (Inr (), db, [])) \<and>
      (\<not> isVerified u \<longrightarrow>
         resendVerificationEmail E now raw m db =
           (Inr (),
            save (u\<lparr>emailVerificationToken := Some (sha256 E raw),
                     emailVerificationExpires := Some (now + 86400000)\<rparr>) db,
            [VerificationEmail m raw])) \<and>
      forgotPassword E now raw m db =
        (Inr (),
         save (u\<lparr>passwordResetToken := Some (sha256 E raw),
                  passwordResetExpires := Some (now + 3600000)\<rparr>) db,
         [PasswordResetEmail m raw]))"
proof -
  have ok: "fst (resendVerificationEmail E now raw m db) = Inr ()"
    "fst (forgotPassword E now raw m db) = Inr ()" for E now raw m db
    by (simp_all add: resendVerificationEmail_def forgotPassword_def cast_email_def Let_def
        split: option.splits)
  have absent: "(\<forall>v\<in>set db. email v \<noteq> toLowerCase E (trim E m)) \<Longrightarrow>
      findOne (\<lambda>v. email v = toLowerCase E (trim E m)) db = None"
    by (simp add: findOne_None_iff)
  have none: "findOne (\<lambda>v. email v = toLowerCase E (trim E m)) db = None \<Longrightarrow>
      resendVerificationEmail E now raw m db = (Inr (), db, []) \<and>
      forgotPassword E now raw m db = (Inr (), db, [])"
    by (simp add: resendVerificationEmail_def forgotPassword_def cast_email_def)
  have found: "findOne (\<lambda>v. email v = toLowerCase E (trim E m)) db = Some u \<Longrightarrow>
      (isVerified u \<longrightarrow> resendVerificationEmail E now raw m db = (Inr (), db, [])) \<and>
      (\<not> isVerified u \<longrightarrow>
         resendVerificationEmail E now raw m db =
           (Inr (),
            save (u\<lparr>emailVerificationToken := Some (sha256 E raw),
                     emailVerificationExpires := Some (now + 86400000)\<rparr>) db,
            [VerificationEmail m raw])) \<and>
      forgotPassword E now raw m db =
        (Inr (),
         save (u\<lparr>passwordResetToken := Some (sha256 E raw),
                  passwordResetExpires := Some (now + 3600000)\<rparr>) db,
         [PasswordResetEmail m raw])"
    by (simp add: resendVerificationEmail_def forgotPassword_def cast_email_def Let_def)
  show ?thesis
    using absent none found ok [of E now raw m db] ok [of E' now' raw' m' db'] by presburger
qed

text \<open>An address nobody has; the address of \<open>alice\<close>, who is verified, in capitals; the
  same address on a store where that user is not verified yet.\<close>

theorem anti_enumeration_witness:
  "resendVerificationEmail demo_env 0 ''t9'' ''bob@x.com'' [pending] = (Inr (), [pending], []) \<and>
   forgotPassword demo_env 0 ''t9'' ''bob@x.com'' [pending] = (Inr (), [pending], []) \<and>
   resendVerificationEmail demo_env 0 ''t9'' ''ALICE@X.COM'' [alice] = (Inr (), [alice], []) \<and>
   resendVerificationEmail demo_env 0 ''t9'' ''ALICE@X.COM'' [pending] =
     (Inr (),
      [pending\<lparr>emailVerificationToken := Some ''#t9'',
          emailVerificationExpires := Some 86400000\<rparr>],
      [VerificationEmail ''ALICE@X.COM'' ''t9'']) \<and>
   forgotPassword demo_env 0 ''t9'' ''ALICE@X.COM'' [alice] =
     (Inr (),
      [alice\<lparr>passwordResetToken := Some ''#t9'', passwordResetExpires := Some 3600000\<rparr>],
      [PasswordResetEmail ''ALICE@X.COM'' ''t9''])"
proof -
  have a: "\<forall>v\<in>set [pending]. email v \<noteq> toLowerCase demo_env (trim demo_env ''bob@x.com'')"
    by (simp add: pending_def alice_def demo_casts)
  have b: "findOne (\<lambda>v. email v = toLowerCase demo_env (trim demo_env ''ALICE@X.COM'')) [alice] = Some alice"
    "isVerified alice"
    "findOne (\<lambda>v. email v = toLowerCase demo_env (trim demo_env ''ALICE@X.COM'')) [pending] = Some pending"
    "\<not> isVerified pending"
    by (simp_all add: findOne_def alice_def pending_def demo_casts)
  have s: "sha256 demo_env ''t9'' = ''#t9''"
    "save (pending\<lparr>emailVerificationToken := Some ''#t9'',
          emailVerificationExpires := Some 86400000\<rparr>) [pending] =
       [pending\<lparr>emailVerificationToken := Some ''#t9'',
          emailVerificationExpires := Some 86400000\<rparr>]"
    "save (alice\<lparr>passwordResetToken := Some ''#t9'', passwordResetExpires := Some 3600000\<rparr>)
       [alice] =
       [alice\<lparr>passwordResetToken := Some ''#t9'', passwordResetExpires := Some 3600000\<rparr>]"
    by (simp_all add: demo_env_def)
  note n = anti_enumeration [where E = demo_env and now = 0 and raw = "''t9''"
          and m = "''bob@x.com''" and db = "[pending]" and u = alice]
  note v = anti_enumeration [where E = demo_env and now = 0 and raw = "''t9''"
          and m = "''ALICE@X.COM''" and db = "[alice]" and u = alice]
  note p = anti_enumeration [where E = demo_env and now = 0 and raw = "''t9''"
          and m = "''ALICE@X.COM''" and db = "[pending]" and u = pending]
  have c1: "resendVerificationEmail demo_env 0 ''t9'' ''bob@x.com'' [pending] =
      (Inr (), [pending], [])"
    and c2: "forgotPassword demo_env 0 ''t9'' ''bob@x.com'' [pending] = (Inr (), [pending], [])"
    using n a by blast+
  have c3: "resendVerificationEmail demo_env 0 ''t9'' ''ALICE@X.COM'' [alice] =
      (Inr (), [alice], [])"
    using v b(1,2) by blast
  have c4: "resendVerificationEmail demo_env 0 ''t9'' ''ALICE@X.COM'' [pending] =
     (Inr (),
      [pending\<lparr>emailVerificationToken := Some ''#t9'',
          emailVerificationExpires := Some 86400000\<rparr>],
      [VerificationEmail ''ALICE@X.COM'' ''t9''])"
    using p b(3,4) s(1,2) by simp
  have c5: "forgotPassword demo_env 0 ''t9'' ''ALICE@X.COM'' [alice] =
     (Inr (),
      [alice\<lparr>passwordResetToken := Some ''#t9'', passwordResetExpires := Some 3600000\<rparr>],
      [PasswordResetEmail ''ALICE@X.COM'' ''t9''])"
    using v b(1) s(1,3) by simp
  show ?thesis
    using c1 c2 c3 c4 c5 by blast
qed

subsection \<open>updateProfile\<close>

lemma updateProfile_store:
  "snd (updateProfile E salt i input db) = db \<or>
   (\<exists>u u2. findById i db = Some u \<and> user_id u2 = i \<and>
      u2\<lparr>username := username u, password := password u\<rparr> = u \<and>
      snd (updateProfile E salt i input db) = save u2 db)"
proof (cases "findById i db")
  case None
  then show ?thesis by (simp add: updateProfile_def cast_username_def)
next
  case (Some u)
  define u1 where "u1 =
    (case in_username input of None \<Rightarrow> u
     | Some n \<Rightarrow> if n = [] then u else u\<lparr>username := trim E n\<rparr>)"
  define u2 where "u2 =
    (case in_password input of None \<Rightarrow> u1
     | Some p \<Rightarrow> if p = [] then u1 else u1\<lparr>password := bcrypt_hash E p salt\<rparr>)"
  have id: "user_id u = i"
    using Some by (simp add: findById_SomeD)
  have keep: "user_id u2 = i \<and> u2\<lparr>username := username u, password := password u\<rparr> = u"
    using id by (simp add: u1_def u2_def split: option.splits)
  have "snd (updateProfile E salt i input db) = db \<or>
      snd (updateProfile E salt i input db) = save u2 db"
    using Some
    by (simp add: updateProfile_def cast_username_def Let_def u1_def u2_def split: option.splits)
  then show ?thesis
    using Some keep by blast
qed

lemma updateProfile_frame:
  assumes v: "findById j db = Some v"
  shows "\<exists>v'. findById j (snd (updateProfile E salt i input db)) = Some v' \<and>
            v'\<lparr>username := username v, password := password v\<rparr> = v \<and>
            (j \<noteq> i \<longrightarrow> v' = v)"
proof -
  let ?db' = "snd (updateProfile E salt i input db)"
  from updateProfile_store [of E salt i input db]
  consider "?db' = db"
    | w u2 where "findById i db = Some w" "user_id u2 = i"
        "u2\<lparr>username := username w, password := password w\<rparr> = w" "?db' = save u2 db"
    by blast
  then show ?thesis
  proof cases
    case 1
    then show ?thesis using v by simp
  next
    case 2
    show ?thesis
    proof (cases "j = i")
      case True
      then have "findById j ?db' = Some u2"
        using 2 findById_save_same [of u2 i db] by simp
      moreover have "w = v" using 2(1) v True by simp
      ultimately show ?thesis using 2(3) True by simp
    next
      case False
      then have "findById j ?db' = findById j db"
        using 2 findById_save_other [of u2 j db] by simp
      then show ?thesis using v False by simp
    qed
  qed
qed

lemma updateProfile_rejects:
  assumes "isValidObjectId E i" "findById i db = Some u"
  shows "in_email input \<noteq> None \<Longrightarrow>
      updateProfile E salt i input db =
        (Inl (Thrown (ApiError ''Email cannot be changed'' 400)), db)"
    and "in_email input = None \<Longrightarrow> in_role input \<noteq> None \<or> in_isActive input \<noteq> None \<Longrightarrow>
      updateProfile E salt i input db = (Inl (Thrown (ApiError ''Forbidden'' 403)), db)"
  using assms by (auto simp: updateProfile_def cast_username_def)

lemma updateProfile_username:
  assumes "isValidObjectId E i" "findById i db = Some u"
    and "in_email input = None" "in_role input = None" "in_isActive input = None"
    and "in_username input = Some n" "n \<noteq> []"
  shows "\<exists>v\<in>set db. username v = trim E n \<and> user_id v \<noteq> i \<Longrightarrow>
      updateProfile E salt i input db =
        (Inl (Thrown (ApiError ''Username already taken'' 409)), db)"
    and "\<forall>v\<in>set db. username v = trim E n \<longrightarrow> user_id v = i \<Longrightarrow>
      \<not> valid_username (trim E n) \<Longrightarrow>
      updateProfile E salt i input db = (Inl ValidationError, db)"
    and "\<forall>v\<in>set db. username v = trim E n \<longrightarrow> user_id v = i \<Longrightarrow>
      valid_username (trim E n) \<Longrightarrow> in_password input = Some p \<Longrightarrow> p \<noteq> [] \<Longrightarrow>
      updateProfile E salt i input db =
        (Inr (toObject (u\<lparr>username := trim E n, password := bcrypt_hash E p salt\<rparr>)
                (Some (bcrypt_hash E p salt))),
         save (u\<lparr>username := trim E n, password := bcrypt_hash E p salt\<rparr>) db)"
    and "\<forall>v\<in>set db. username v = trim E n \<longrightarrow> user_id v = i \<Longrightarrow>
      valid_username (trim E n) \<Longrightarrow> \<not> truthy (in_password input) \<Longrightarrow>
      updateProfile E salt i input db =
        (Inr (toObject (u\<lparr>username := trim E n\<rparr>) None),
         save (u\<lparr>username := trim E n\<rparr>) db)"
proof -
  {
    assume "\<exists>v\<in>set db. username v = trim E n \<and> user_id v \<noteq> i"
    then have "findOne (\<lambda>v. username v = trim E n \<and> user_id v \<noteq> i) db \<noteq> None"
      by (simp add: findOne_None_iff)
    then show "updateProfile E salt i input db =
        (Inl (Thrown (ApiError ''Username already taken'' 409)), db)"
      using assms by (auto simp: updateProfile_def cast_username_def)
  }
  assume "\<forall>v\<in>set db. username v = trim E n \<longrightarrow> user_id v = i"
  then have free: "findOne (\<lambda>v. username v = trim E n \<and> user_id v \<noteq> i) db = None"
    by (auto simp: findOne_None_iff)
  {
    assume "\<not> valid_username (trim E n)"
    then show "updateProfile E salt i input db = (Inl ValidationError, db)"
      using assms free by (simp add: updateProfile_def cast_username_def Let_def split: option.splits)
  }
  assume ok: "valid_username (trim E n)"
  {
    assume "in_password input = Some p" "p \<noteq> []"
    then show "updateProfile E salt i input db =
        (Inr (toObject (u\<lparr>username := trim E n, password := bcrypt_hash E p salt\<rparr>)
                (Some (bcrypt_hash E p salt))),
         save (u\<lparr>username := trim E n, password := bcrypt_hash E p salt\<rparr>) db)"
      using assms free ok by (simp add: updateProfile_def cast_username_def Let_def)
  }
  {
    assume "\<not> truthy (in_password input)"
    then show "updateProfile E salt i input db =
        (Inr (toObject (u\<lparr>username := trim E n\<rparr>) None),
         save (u\<lparr>username := trim E n\<rparr>) db)"
      using assms free ok
      by (cases "in_password input") (simp_all add: updateProfile_def cast_username_def Let_def)
  }
qed

lemma updateProfile_no_username:
  assumes "isValidObjectId E i" "findById i db = Some u"
    and "in_email input = None" "in_role input = None" "in_isActive input = None"
    and "\<not> truthy (in_username input)"
  shows "in_password input = Some p \<Longrightarrow> p \<noteq> [] \<Longrightarrow>
      updateProfile E salt i input db =
        (Inr (toObject (u\<lparr>password := bcrypt_hash E p salt\<rparr>) (Some (bcrypt_hash E p salt))),
         save (u\<lparr>password := bcrypt_hash E p salt\<rparr>) db)"
    and "\<not> truthy (in_password input) \<Longrightarrow>
      updateProfile E salt i input db = (Inr (toObject u None), save u db)"
proof -
  {
    assume "in_password input = Some p" "p \<noteq> []"
    then show "updateProfile E salt i input db =
        (Inr (toObject (u\<lparr>password := bcrypt_hash E p salt\<rparr>) (Some (bcrypt_hash E p salt))),
         save (u\<lparr>password := bcrypt_hash E p salt\<rparr>) db)"
      using assms
      by (cases "in_username input") (simp_all add: updateProfile_def cast_username_def Let_def)
  }
  {
    assume "\<not> truthy (in_password input)"
    then show "updateProfile E salt i input db = (Inr (toObject u None), save u db)"
      using assms
      by (cases "in_username input"; cases "in_password input")
        (simp_all add: updateProfile_def cast_username_def Let_def)
  }
qed

lemma findById_save_stored:
  "findById i db = Some u \<Longrightarrow> user_id u2 = i \<Longrightarrow> findById i (save u2 db) = Some u2"
  using findById_save_same [of u2 i db] by simp

text \<open>
  C10. For a valid id of a stored user, \<open>updateProfile\<close> answers a body with an
  \<^verbatim>\<open>email\<close> key with 400 "Email cannot be changed", and otherwise a body with a \<^verbatim>\<open>role\<close> or
  \<^verbatim>\<open>isActive\<close> key with 403 "Forbidden", the store unchanged in both cases. Without those
  keys, a new username (trimmed, as the schema casts it) that another user has is
  refused with 409, and one that is free but breaks the schema with a ValidationError,
  the store unchanged; a free and valid username is stored, and so is the hash of a new
  password; the returned object is the stored user without the unselected paths, with
  the password hash only when a password was given. Whatever the body and the outcome,
  every stored user keeps all fields but username and password, and every user other
  than the one updated is unchanged.
\<close>

theorem updateProfile_restrictions:
  "(isValidObjectId E i \<and> findById i db = Some u \<longrightarrow>
      (in_email input \<noteq> None \<longrightarrow>
         updateProfile E salt i input db =
           (Inl (Thrown (ApiError ''Email cannot be changed'' 400)), db)) \<and>
      (in_email input = None \<and> (in_role input \<noteq> None \<or> in_isActive input \<noteq> None) \<longrightarrow>
         updateProfile E salt i input db = (Inl (Thrown (ApiError ''Forbidden'' 403)), db)) \<and>
      (in_email input = None \<and> in_role input = None \<and> in_isActive input = None \<longrightarrow>
         (in_username input = Some n \<and> n \<noteq> [] \<longrightarrow>
            ((\<exists>v\<in>set db. username v = trim E n \<and> user_id v \<noteq> i) \<longrightarrow>
              updateProfile E salt i input db =
                (Inl (Thrown (ApiError ''Username already taken'' 409)), db)) \<and>
            ((\<forall>v\<in>set db. username v = trim E n \<longrightarrow> user_id v = i) \<longrightarrow>
              (\<not> valid_username (trim E n) \<longrightarrow>
                 updateProfile E salt i input db = (Inl ValidationError, db)) \<and>
              (valid_username (trim E n) \<and> in_password input = Some p \<and> p \<noteq> [] \<longrightarrow>
                 fst (updateProfile E salt i input db) = Inr (toObject (u\<lparr>username := trim E n, password := bcrypt_hash E p salt\<rparr>) (Some (bcrypt_hash E p salt))) \<and>
                 findById i (snd (updateProfile E salt i input db)) = Some (u\<lparr>username := trim E n, password := bcrypt_hash E p salt\<rparr>)) \<and>
              (valid_username (trim E n) \<and> \<not> truthy (in_password input) \<longrightarrow>
                 fst (updateProfile E salt i input db) = Inr (toObject (u\<lparr>username := trim E n\<rparr>) None) \<and>
                 findById i (snd (updateProfile E salt i input db)) = Some (u\<lparr>username := trim E n\<rparr>)))) \<and>
         (\<not> truthy (in_username input) \<longrightarrow>
            (in_password input = Some p \<and> p \<noteq> [] \<longrightarrow>
               fst (updateProfile E salt i input db) = Inr (toObject (u\<lparr>password := bcrypt_hash E p salt\<rparr>) (Some (bcrypt_hash E p salt))) \<and>
               findById i (snd (updateProfile E salt i input db)) = Some (u\<lparr>password := bcrypt_hash E p salt\<rparr>)) \<and>
            (\<not> truthy (in_password input) \<longrightarrow>
               fst (updateProfile E salt i input db) = Inr (toObject (u) None) \<and>
               findById i (snd (updateProfile E salt i input db)) = Some (u))))) \<and>
   (\<forall>j v. findById j db = Some v \<longrightarrow>
      (\<exists>v'. findById j (snd (updateProfile E salt i input db)) = Some v' \<and>
            v'\<lparr>username := username v, password := password v\<rparr> = v \<and>
            (j \<noteq> i \<longrightarrow> v' = v)))"
proof (intro conjI impI allI)
  assume a: "isValidObjectId E i \<and> findById i db = Some u" and e: "in_email input \<noteq> None"
  from a e show "updateProfile E salt i input db =
           (Inl (Thrown (ApiError ''Email cannot be changed'' 400)), db)"
    using updateProfile_rejects(1) [of E i db u input salt] by simp
next
  assume a: "isValidObjectId E i \<and> findById i db = Some u"
  assume e: "in_email input = None \<and> (in_role input \<noteq> None \<or> in_isActive input \<noteq> None)"
  from a e show "updateProfile E salt i input db = (Inl (Thrown (ApiError ''Forbidden'' 403)), db)"
    using updateProfile_rejects(2) [of E i db u input salt] by blast
next
  assume a: "isValidObjectId E i \<and> findById i db = Some u"
  assume b: "in_email input = None \<and> in_role input = None \<and> in_isActive input = None"
  assume n: "in_username input = Some n \<and> n \<noteq> []"
  assume t: "\<exists>v\<in>set db. username v = trim E n \<and> user_id v \<noteq> i"
  from a b n t show "updateProfile E salt i input db =
                (Inl (Thrown (ApiError ''Username already taken'' 409)), db)"
    using updateProfile_username(1) [of E i db u input n salt] by blast
next
  assume a: "isValidObjectId E i \<and> findById i db = Some u"
  assume b: "in_email input = None \<and> in_role input = None \<and> in_isActive input = None"
  assume n: "in_username input = Some n \<and> n \<noteq> []"
  assume f: "\<forall>v\<in>set db. username v = trim E n \<longrightarrow> user_id v = i"
  assume x: "\<not> valid_username (trim E n)"
  from a b n f x show "updateProfile E salt i input db = (Inl ValidationError, db)"
    using updateProfile_username(2) [of E i db u input n salt] by blast
next
  assume a: "isValidObjectId E i \<and> findById i db = Some u"
  assume b: "in_email input = None \<and> in_role input = None \<and> in_isActive input = None"
  assume n: "in_username input = Some n \<and> n \<noteq> []"
  assume f: "\<forall>v\<in>set db. username v = trim E n \<longrightarrow> user_id v = i"
  assume x: "valid_username (trim E n) \<and> in_password input = Some p \<and> p \<noteq> []"
  from a have id: "user_id u = i" by (auto dest: findById_SomeD)
  have r: "updateProfile E salt i input db =
      (Inr (toObject (u\<lparr>username := trim E n, password := bcrypt_hash E p salt\<rparr>) (Some (bcrypt_hash E p salt))), save (u\<lparr>username := trim E n, password := bcrypt_hash E p salt\<rparr>) db)"
    using a b n f x updateProfile_username(3) [of E i db u input n p salt] by simp
  show "fst (updateProfile E salt i input db) = Inr (toObject (u\<lparr>username := trim E n, password := bcrypt_hash E p salt\<rparr>) (Some (bcrypt_hash E p salt)))"
    using r by simp
next
  assume a: "isValidObjectId E i \<and> findById i db = Some u"
  assume b: "in_email input = None \<and> in_role input = None \<and> in_isActive input = None"
  assume n: "in_username input = Some n \<and> n \<noteq> []"
  assume f: "\<forall>v\<in>set db. username v = trim E n \<longrightarrow> user_id v = i"
  assume x: "valid_username (trim E n) \<and> in_password input = Some p \<and> p \<noteq> []"
  from a have id: "user_id u = i" by (auto dest: findById_SomeD)
  have r: "updateProfile E salt i input db =
      (Inr (toObject (u\<lparr>username := trim E n, password := bcrypt_hash E p salt\<rparr>) (Some (bcrypt_hash E p salt))), save (u\<lparr>username := trim E n, password := bcrypt_hash E p salt\<rparr>) db)"
    using a b n f x updateProfile_username(3) [of E i db u input n p salt] by simp
  show "findById i (snd (updateProfile E salt i input db)) = Some (u\<lparr>username := trim E n, password := bcrypt_hash E p salt\<rparr>)"
    using r a id findById_save_stored [of i db u "u\<lparr>username := trim E n, password := bcrypt_hash E p salt\<rparr>"] by simp
next
  assume a: "isValidObjectId E i \<and> findById i db = Some u"
  assume b: "in_email input = None \<and> in_role input = None \<and> in_isActive input = None"
  assume n: "in_username input = Some n \<and> n \<noteq> []"
  assume f: "\<forall>v\<in>set db. username v = trim E n \<longrightarrow> user_id v = i"
  assume x: "valid_username (trim E n) \<and> \<not> truthy (in_password input)"
  from a have id: "user_id u = i" by (auto dest: findById_SomeD)
  have r: "updateProfile E salt i input db =
      (Inr (toObject (u\<lparr>username := trim E n\<rparr>) None), save (u\<lparr>username := trim E n\<rparr>) db)"
    using a b n f x updateProfile_username(4) [of E i db u input n salt] by simp
  show "fst (updateProfile E salt i input db) = Inr (toObject (u\<lparr>username := trim E n\<rparr>) None)"
    using r by simp
next
  assume a: "isValidObjectId E i \<and> findById i db = Some u"
  assume b: "in_email input = None \<and> in_role input = None \<and> in_isActive input = None"
  assume n: "in_username input = Some n \<and> n \<noteq> []"
  assume f: "\<forall>v\<in>set db. username v = trim E n \<longrightarrow> user_id v = i"
  assume x: "valid_username (trim E n) \<and> \<not> truthy (in_password input)"
  from a have id: "user_id u = i" by (auto dest: findById_SomeD)
  have r: "updateProfile E salt i input db =
      (Inr (toObject (u\<lparr>username := trim E n\<rparr>) None), save (u\<lparr>username := trim E n\<rparr>) db)"
    using a b n f x updateProfile_username(4) [of E i db u input n salt] by simp
  show "findById i (snd (updateProfile E salt i input db)) = Some (u\<lparr>username := trim E n\<rparr>)"
    using r a id findById_save_stored [of i db u "u\<lparr>username := trim E n\<rparr>"] by simp
next
  assume a: "isValidObjectId E i \<and> findById i db = Some u"
  assume b: "in_email input = None \<and> in_role input = None \<and> in_isActive input = None"
  assume n: "\<not> truthy (in_username input)"
  assume x: "in_password input = Some p \<and> p \<noteq> []"
  from a have id: "user_id u = i" by (auto dest: findById_SomeD)
  have r: "updateProfile E salt i input db =
      (Inr (toObject (u\<lparr>password := bcrypt_hash E p salt\<rparr>) (Some (bcrypt_hash E p salt))), save (u\<lparr>password := bcrypt_hash E p salt\<rparr>) db)"
    using a b n x updateProfile_no_username(1) [of E i db u input p salt] by simp
  show "fst (updateProfile E salt i input db) = Inr (toObject (u\<lparr>password := bcrypt_hash E p salt\<rparr>) (Some (bcrypt_hash E p salt)))"
    using r by simp
next
  assume a: "isValidObjectId E i \<and> findById i db = Some u"
  assume b: "in_email input = None \<and> in_role input = None \<and> in_isActive input = None"
  assume n: "\<not> truthy (in_username input)"
  assume x: "in_password input = Some p \<and> p \<noteq> []"
  from a have id: "user_id u = i" by (auto dest: findById_SomeD)
  have r: "updateProfile E salt i input db =
      (Inr (toObject (u\<lparr>password := bcrypt_hash E p salt\<rparr>) (Some (bcrypt_hash E p salt))), save (u\<lparr>password := bcrypt_hash E p salt\<rparr>) db)"
    using a b n x updateProfile_no_username(1) [of E i db u input p salt] by simp
  show "findById i (snd (updateProfile E salt i input db)) = Some (u\<lparr>password := bcrypt_hash E p salt\<rparr>)"
    using r a id findById_save_stored [of i db u "u\<lparr>password := bcrypt_hash E p salt\<rparr>"] by simp
next
  assume a: "isValidObjectId E i \<and> findById i db = Some u"
  assume b: "in_email input = None \<and> in_role input = None \<and> in_isActive input = None"
  assume n: "\<not> truthy (in_username input)"
  assume x: "\<not> truthy (in_password input)"
  from a have id: "user_id u = i" by (auto dest: findById_SomeD)
  have r: "updateProfile E salt i input db =
      (Inr (toObject (u) None), save (u) db)"
    using a b n x updateProfile_no_username(2) [of E i db u input salt] by simp
  show "fst (updateProfile E salt i input db) = Inr (toObject (u) None)"
    using r by simp
next
  assume a: "isValidObjectId E i \<and> findById i db = Some u"
  assume b: "in_email input = None \<and> in_role input = None \<and> in_isActive input = None"
  assume n: "\<not> truthy (in_username input)"
  assume x: "\<not> truthy (in_password input)"
  from a have id: "user_id u = i" by (auto dest: findById_SomeD)
  have r: "updateProfile E salt i input db =
      (Inr (toObject (u) None), save (u) db)"
    using a b n x updateProfile_no_username(2) [of E i db u input salt] by simp
  show "findById i (snd (updateProfile E salt i input db)) = Some (u)"
    using r a id findById_save_stored [of i db u "u"] by simp
next
  fix j v
  assume "findById j db = Some v"
  then show "\<exists>v'. findById j (snd (updateProfile E salt i input db)) = Some v' \<and>
            v'\<lparr>username := username v, password := password v\<rparr> = v \<and>
            (j \<noteq> i \<longrightarrow> v' = v)"
    by (rule updateProfile_frame)
qed

lemma demo_trims:
  "trim demo_env '' bob '' = ''bob''" "trim demo_env ''a'' = ''a''"
  "trim demo_env '' al '' = ''al''"
  by (simp_all add: demo_env_def trim_blanks_def blank_def)

text \<open>On the store of \<open>alice\<close> and \<open>bob\<close>, for the id of \<open>alice\<close>: the three refused
  keys; the name of \<open>bob\<close> between blanks; a name of one letter; a free name with a new
  password and an \<^verbatim>\<open>isVerified\<close> key, which is ignored; and the empty body.\<close>

theorem updateProfile_restrictions_witness:
  "updateProfile demo_env ''s'' ''u1'' (no_keys\<lparr>in_email := Some ''a@y.com''\<rparr>) [alice, bob] =
     (Inl (Thrown (ApiError ''Email cannot be changed'' 400)), [alice, bob]) \<and>
   updateProfile demo_env ''s'' ''u1'' (no_keys\<lparr>in_role := Some RAdmin\<rparr>) [alice, bob] =
     (Inl (Thrown (ApiError ''Forbidden'' 403)), [alice, bob]) \<and>
   updateProfile demo_env ''s'' ''u1'' (no_keys\<lparr>in_isActive := Some False\<rparr>) [alice, bob] =
     (Inl (Thrown (ApiError ''Forbidden'' 403)), [alice, bob]) \<and>
   updateProfile demo_env ''s'' ''u1'' (no_keys\<lparr>in_username := Some '' bob ''\<rparr>) [alice, bob] =
     (Inl (Thrown (ApiError ''Username already taken'' 409)), [alice, bob]) \<and>
   updateProfile demo_env ''s'' ''u1'' (no_keys\<lparr>in_username := Some ''a''\<rparr>) [alice, bob] =
     (Inl ValidationError, [alice, bob]) \<and>
   fst (updateProfile demo_env ''s'' ''u1''
          (no_keys\<lparr>in_username := Some '' al '', in_password := Some ''NewPw1!a'',
             in_isVerified := Some False\<rparr>) [alice, bob]) =
     Inr \<lparr>obj_id = ''u1'', obj_username = ''al'', obj_email = ''alice@x.com'', obj_role = RUser,
          obj_isVerified = True, obj_isActive = True, obj_password = Some ''$NewPw1!a''\<rparr> \<and>
   findById ''u1'' (snd (updateProfile demo_env ''s'' ''u1''
          (no_keys\<lparr>in_username := Some '' al '', in_password := Some ''NewPw1!a'',
             in_isVerified := Some False\<rparr>) [alice, bob])) =
     Some (alice\<lparr>username := ''al'', password := ''$NewPw1!a''\<rparr>) \<and>
   findById ''u2'' (snd (updateProfile demo_env ''s'' ''u1''
          (no_keys\<lparr>in_username := Some '' al '', in_password := Some ''NewPw1!a'',
             in_isVerified := Some False\<rparr>) [alice, bob])) = Some bob \<and>
   fst (updateProfile demo_env ''s'' ''u1'' no_keys [alice, bob]) =
     Inr \<lparr>obj_id = ''u1'', obj_username = ''alice'', obj_email = ''alice@x.com'',
          obj_role = RUser, obj_isVerified = True, obj_isActive = True, obj_password = None\<rparr>"
proof -
  let ?ok = "no_keys\<lparr>in_username := Some '' al '', in_password := Some ''NewPw1!a'',
             in_isVerified := Some False\<rparr>"
  have pre: "isValidObjectId demo_env ''u1'' \<and> findById ''u1'' [alice, bob] = Some alice"
    by (simp add: demo_env_def findById_def findOne_def alice_def bob_def)
  have pre2: "findById ''u2'' [alice, bob] = Some bob"
    by (simp add: findById_def findOne_def alice_def bob_def)
  have k: "in_email (no_keys\<lparr>in_email := Some ''a@y.com''\<rparr>) \<noteq> None"
    "in_email (no_keys\<lparr>in_role := Some RAdmin\<rparr>) = None \<and>
       (in_role (no_keys\<lparr>in_role := Some RAdmin\<rparr>) \<noteq> None \<or>
        in_isActive (no_keys\<lparr>in_role := Some RAdmin\<rparr>) \<noteq> None)"
    "in_email (no_keys\<lparr>in_isActive := Some False\<rparr>) = None \<and>
       (in_role (no_keys\<lparr>in_isActive := Some False\<rparr>) \<noteq> None \<or>
        in_isActive (no_keys\<lparr>in_isActive := Some False\<rparr>) \<noteq> None)"
    by (simp_all add: no_keys_def)
  have b: "in_email (no_keys\<lparr>in_username := Some '' bob ''\<rparr>) = None \<and>
       in_role (no_keys\<lparr>in_username := Some '' bob ''\<rparr>) = None \<and>
       in_isActive (no_keys\<lparr>in_username := Some '' bob ''\<rparr>) = None"
    "in_username (no_keys\<lparr>in_username := Some '' bob ''\<rparr>) = Some '' bob '' \<and> '' bob '' \<noteq> []"
    "\<exists>v\<in>set [alice, bob]. username v = trim demo_env '' bob '' \<and> user_id v \<noteq> ''u1''"
    by (simp_all add: no_keys_def demo_trims alice_def bob_def)
  have a: "in_email (no_keys\<lparr>in_username := Some ''a''\<rparr>) = None \<and>
       in_role (no_keys\<lparr>in_username := Some ''a''\<rparr>) = None \<and>
       in_isActive (no_keys\<lparr>in_username := Some ''a''\<rparr>) = None"
    "in_username (no_keys\<lparr>in_username := Some ''a''\<rparr>) = Some ''a'' \<and> ''a'' \<noteq> []"
    "\<forall>v\<in>set [alice, bob]. username v = trim demo_env ''a'' \<longrightarrow> user_id v = ''u1''"
    "\<not> valid_username (trim demo_env ''a'')"
    by (simp_all add: no_keys_def demo_trims alice_def bob_def valid_username_def)
  have o: "in_email ?ok = None \<and> in_role ?ok = None \<and> in_isActive ?ok = None"
    "in_username ?ok = Some '' al '' \<and> '' al '' \<noteq> []"
    "\<forall>v\<in>set [alice, bob]. username v = trim demo_env '' al '' \<longrightarrow> user_id v = ''u1''"
    "valid_username (trim demo_env '' al '') \<and>
       in_password ?ok = Some ''NewPw1!a'' \<and> ''NewPw1!a'' \<noteq> []"
    by (simp_all add: no_keys_def demo_trims alice_def bob_def valid_username_def)
  have z: "in_email no_keys = None \<and> in_role no_keys = None \<and> in_isActive no_keys = None"
    "\<not> truthy (in_username no_keys)" "\<not> truthy (in_password no_keys)"
    by (simp_all add: no_keys_def)
  have hsh: "bcrypt_hash demo_env ''NewPw1!a'' ''s'' = ''$NewPw1!a''"
    by (simp add: demo_env_def)
  have obj: "toObject (alice\<lparr>username := ''al'', password := ''$NewPw1!a''\<rparr>)
               (Some ''$NewPw1!a'') =
      \<lparr>obj_id = ''u1'', obj_username = ''al'', obj_email = ''alice@x.com'', obj_role = RUser,
       obj_isVerified = True, obj_isActive = True, obj_password = Some ''$NewPw1!a''\<rparr>"
    "toObject alice None =
      \<lparr>obj_id = ''u1'', obj_username = ''alice'', obj_email = ''alice@x.com'',
       obj_role = RUser, obj_isVerified = True, obj_isActive = True, obj_password = None\<rparr>"
    by (simp_all add: toObject_def alice_def)
  note T = updateProfile_restrictions [where E = demo_env and salt = "''s''" and i = "''u1''"
      and db = "[alice, bob]" and u = alice]
  have c1: "updateProfile demo_env ''s'' ''u1'' (no_keys\<lparr>in_email := Some ''a@y.com''\<rparr>)
      [alice, bob] = (Inl (Thrown (ApiError ''Email cannot be changed'' 400)), [alice, bob])"
    by (rule T [where input = "no_keys\<lparr>in_email := Some ''a@y.com''\<rparr>", THEN conjunct1,
          THEN mp, OF pre, THEN conjunct1, THEN mp, OF k(1)])
  have c2: "updateProfile demo_env ''s'' ''u1'' (no_keys\<lparr>in_role := Some RAdmin\<rparr>)
      [alice, bob] = (Inl (Thrown (ApiError ''Forbidden'' 403)), [alice, bob])"
    by (rule T [where input = "no_keys\<lparr>in_role := Some RAdmin\<rparr>", THEN conjunct1,
          THEN mp, OF pre, THEN conjunct2, THEN conjunct1, THEN mp, OF k(2)])
  have c3: "updateProfile demo_env ''s'' ''u1'' (no_keys\<lparr>in_isActive := Some False\<rparr>)
      [alice, bob] = (Inl (Thrown (ApiError ''Forbidden'' 403)), [alice, bob])"
    by (rule T [where input = "no_keys\<lparr>in_isActive := Some False\<rparr>", THEN conjunct1,
          THEN mp, OF pre, THEN conjunct2, THEN conjunct1, THEN mp, OF k(3)])
  have c4: "updateProfile demo_env ''s'' ''u1'' (no_keys\<lparr>in_username := Some '' bob ''\<rparr>)
      [alice, bob] = (Inl (Thrown (ApiError ''Username already taken'' 409)), [alice, bob])"
    by (rule T [where input = "no_keys\<lparr>in_username := Some '' bob ''\<rparr>" and n = "'' bob ''",
          THEN conjunct1, THEN mp, OF pre, THEN conjunct2, THEN conjunct2, THEN mp,
          OF b(1), THEN conjunct1, THEN mp, OF b(2), THEN conjunct1, THEN mp, OF b(3)])
  have c5: "updateProfile demo_env ''s'' ''u1'' (no_keys\<lparr>in_username := Some ''a''\<rparr>)
      [alice, bob] = (Inl ValidationError, [alice, bob])"
    by (rule T [where input = "no_keys\<lparr>in_username := Some ''a''\<rparr>" and n = "''a''",
          THEN conjunct1, THEN mp, OF pre, THEN conjunct2, THEN conjunct2, THEN mp,
          OF a(1), THEN conjunct1, THEN mp, OF a(2), THEN conjunct2, THEN mp, OF a(3),
          THEN conjunct1, THEN mp, OF a(4)])
  have c67: "fst (updateProfile demo_env ''s'' ''u1'' ?ok [alice, bob]) =
        Inr (toObject (alice\<lparr>username := trim demo_env '' al '',
                 password := bcrypt_hash demo_env ''NewPw1!a'' ''s''\<rparr>)
               (Some (bcrypt_hash demo_env ''NewPw1!a'' ''s''))) \<and>
      findById ''u1'' (snd (updateProfile demo_env ''s'' ''u1'' ?ok [alice, bob])) =
        Some (alice\<lparr>username := trim demo_env '' al '',
                 password := bcrypt_hash demo_env ''NewPw1!a'' ''s''\<rparr>)"
    by (rule T [where input = ?ok and n = "'' al ''" and p = "''NewPw1!a''",
          THEN conjunct1, THEN mp, OF pre, THEN conjunct2, THEN conjunct2, THEN mp,
          OF o(1), THEN conjunct1, THEN mp, OF o(2), THEN conjunct2, THEN mp, OF o(3),
          THEN conjunct2, THEN conjunct1, THEN mp, OF o(4)])
  have c8: "findById ''u2'' (snd (updateProfile demo_env ''s'' ''u1'' ?ok [alice, bob])) = Some bob"
    using T [where input = ?ok, THEN conjunct2, THEN spec, THEN spec, THEN mp, OF pre2]
    by auto
  have c9: "fst (updateProfile demo_env ''s'' ''u1'' no_keys [alice, bob]) =
      Inr (toObject alice None)"
    by (rule T [where input = no_keys, THEN conjunct1, THEN mp, OF pre,
          THEN conjunct2, THEN conjunct2, THEN mp, OF z(1), THEN conjunct2, THEN mp, OF z(2),
          THEN conjunct2, THEN mp, OF z(3), THEN conjunct1])
  show ?thesis
    using c1 c2 c3 c4 c5 c67 c8 c9 by (simp add: demo_trims hsh obj)
qed

end
